theory Spec2Isabelle
  imports Complex_Main "HOL-Library.Multiset"
begin

section \<open>Data model\<close>

text \<open>
  The program (\<^verbatim>\<open>src/main.py\<close>) reads the changelog of a Jira issue and derives timing
  metrics from it. The Python standard library, pandas and the network are not part of
  the repository: what the program calls of them is collected in the record \<open>env\<close> and
  every function of the model takes it as its first argument.

  A \<^verbatim>\<open>datetime\<close> is modelled by the two things the program observes of it: its position
  on the time line (subtraction and comparison of timezone-aware values go by it), and
  the text \<^verbatim>\<open>strftime("%Y-%m-%d")\<close> prints for it.
\<close>

record datetime =
  instant :: int \<comment> \<open>microseconds since the epoch\<close>
  ymd :: string \<comment> \<open>\<^verbatim>\<open>dt.strftime("%Y-%m-%d")\<close>\<close>

text \<open>
  One entry of the changelog, as the Jira API delivers it: \<^verbatim>\<open>change.get("created")\<close> and
  \<^verbatim>\<open>change.get("items", [])\<close>; of an item \<^verbatim>\<open>item.get("field")\<close>,
  \<^verbatim>\<open>item.get("fromString")\<close> and \<^verbatim>\<open>item.get("toString")\<close>. \<open>None\<close> is a missing key or a
  JSON null.
\<close>

record item =
  field :: "string option"
  fromString :: "string option"
  toString :: "string option"

record change =
  created :: "string option"
  items :: "item list"

text \<open>
  The environment:
  \<^item> \<open>strptime s fmt\<close> is \<^verbatim>\<open>datetime.strptime(s, fmt)\<close>, \<open>None\<close> when it raises;
  \<^item> \<open>clock k\<close> is what the \<open>k\<close>-th call of \<^verbatim>\<open>datetime.now(timezone.utc)\<close> returns; the
    functions that read the clock take the number of reads so far and return it
    updated;
  \<^item> \<open>fetch_issue_changelog key\<close> is the outcome of the paging loop of the same name:
    the exception it raises, or the changelog;
  \<^item> \<open>to_datetime s\<close> is the cell \<^verbatim>\<open>pd.to_datetime(column, errors="coerce")\<close> yields for
    the cell \<open>s\<close>, \<open>None\<close> for \<^verbatim>\<open>NaT\<close>;
  \<^item> \<open>days_rounded v\<close> is the float \<^verbatim>\<open>round(td.total_seconds() / 86400, 2)\<close> for the
    \<^verbatim>\<open>pd.Timedelta\<close> \<open>td\<close> of \<open>v\<close> nanoseconds. It is computed in double precision, by
    pandas and by Python's \<^verbatim>\<open>round\<close>, and is not the exact quotient rounded; a float is
    represented by the rational number it denotes.

  The exceptions that leave the functions of the program: the one
  \<^verbatim>\<open>fetch_issue_changelog\<close> raises, with its message, and the one pandas raises when a
  \<^verbatim>\<open>Timedelta\<close> leaves its range.
\<close>

datatype error = Failed string | Overflow

record env =
  strptime :: "string \<Rightarrow> string \<Rightarrow> datetime option"
  clock :: "nat \<Rightarrow> datetime"
  fetch_issue_changelog :: "string \<Rightarrow> error + change list"
  to_datetime :: "string \<Rightarrow> datetime option"
  days_rounded :: "int \<Rightarrow> rat"

section \<open>Utilities\<close>

definition fmts :: "string list" where
  "fmts = [''%Y-%m-%dT%H:%M:%S.%f%z'', ''%Y-%m-%dT%H:%M:%S%z'']"

text \<open>The loop \<^verbatim>\<open>for fmt in fmts: try: ... except Exception: continue\<close>.\<close>

fun try_formats :: "env \<Rightarrow> string \<Rightarrow> string list \<Rightarrow> datetime option" where
  "try_formats E date_str [] = None"
| "try_formats E date_str (fmt # rest) =
     (case strptime E date_str fmt of
        Some dt \<Rightarrow> Some dt
      | None \<Rightarrow> try_formats E date_str rest)"

text \<open>\<^verbatim>\<open>date_str.split("T")[0]\<close>: the text before the first \<^verbatim>\<open>T\<close>.\<close>

definition split_T_first :: "string \<Rightarrow> string" where
  "split_T_first s = takeWhile (\<lambda>c. c \<noteq> CHR ''T'') s"

definition parse_datetime :: "env \<Rightarrow> string \<Rightarrow> string" where
  "parse_datetime E date_str =
     (if date_str = [] then []
      else case try_formats E date_str fmts of
             Some dt \<Rightarrow> ymd dt
           | None \<Rightarrow> split_T_first date_str)"

definition parse_datetime_raw :: "env \<Rightarrow> nat \<Rightarrow> string \<Rightarrow> datetime \<times> nat" where
  "parse_datetime_raw E k date_str =
     (case try_formats E date_str fmts of
        Some dt \<Rightarrow> (dt, k)
      | None \<Rightarrow> (clock E k, Suc k))"

text \<open>
  \<^verbatim>\<open>(a - b).days\<close> of two datetimes: a \<^verbatim>\<open>timedelta\<close> is normalised so that its seconds and
  microseconds are not negative, hence \<^verbatim>\<open>days\<close> is the floor of the difference in days.
\<close>

definition day_us :: int where
  "day_us = 86400000000"

definition timedelta_days :: "datetime \<Rightarrow> datetime \<Rightarrow> int" where
  "timedelta_days a b = (instant a - instant b) div day_us"

text \<open>
  \<^verbatim>\<open>min(parsed)\<close>: the first of the smallest elements. It is called on a list that is not
  empty.
\<close>

fun min_dt :: "datetime \<Rightarrow> datetime list \<Rightarrow> datetime" where
  "min_dt m [] = m"
| "min_dt m (d # ds) = min_dt (if instant d < instant m then d else m) ds"

fun parse_valid :: "env \<Rightarrow> string list \<Rightarrow> datetime list" where
  "parse_valid E [] = []"
| "parse_valid E (d # ds) =
     (case strptime E d ''%Y-%m-%d'' of
        Some dt \<Rightarrow> dt # parse_valid E ds
      | None \<Rightarrow> parse_valid E ds)"

definition min_date :: "env \<Rightarrow> string list \<Rightarrow> string" where
  "min_date E dates =
     (let valid_dates = filter (\<lambda>d. d \<noteq> []) dates in
      if valid_dates = [] then []
      else case parse_valid E valid_dates of
             [] \<Rightarrow> []
           | p # ps \<Rightarrow> ymd (min_dt p ps))"

section \<open>Status transition dates\<close>

text \<open>The dictionary \<^verbatim>\<open>status_dates\<close> is a map from status names to date texts.\<close>

fun status_items :: "env \<Rightarrow> string \<Rightarrow> item list \<Rightarrow> (string \<rightharpoonup> string) \<Rightarrow> (string \<rightharpoonup> string)" where
  "status_items E cr [] sd = sd"
| "status_items E cr (it # its) sd =
     status_items E cr its
       (if field it = Some ''status'' then
          (case toString it of
             None \<Rightarrow> sd
           | Some status \<Rightarrow>
               if status \<noteq> [] \<and> sd status = None
               then sd(status \<mapsto> parse_datetime E cr) else sd)
        else sd)"

fun status_changes :: "env \<Rightarrow> change list \<Rightarrow> (string \<rightharpoonup> string) \<Rightarrow> (string \<rightharpoonup> string)" where
  "status_changes E [] sd = sd"
| "status_changes E (c # cs) sd =
     (case created c of
        None \<Rightarrow> status_changes E cs sd
      | Some cr \<Rightarrow>
          if cr = [] then status_changes E cs sd
          else status_changes E cs (status_items E cr (items c) sd))"

definition status_dates_of :: "env \<Rightarrow> change list \<Rightarrow> (string \<rightharpoonup> string)" where
  "status_dates_of E changelog = status_changes E changelog Map.empty"

definition get_status_transition_dates :: "env \<Rightarrow> string \<Rightarrow> error + (string \<rightharpoonup> string)" where
  "get_status_transition_dates E issue_key =
     (case fetch_issue_changelog E issue_key of
        Inl err \<Rightarrow> Inl err
      | Inr changelog \<Rightarrow> Inr (status_dates_of E changelog))"

section \<open>Blocked days\<close>

definition is_blocked_item :: "item \<Rightarrow> bool" where
  "is_blocked_item it \<longleftrightarrow>
     field it = Some ''status'' \<and>
     (toString it = Some ''Blocked'' \<or> fromString it = Some ''Blocked'')"

fun blocked_items :: "env \<Rightarrow> string \<Rightarrow> item list \<Rightarrow> datetime list \<times> nat \<Rightarrow> datetime list \<times> nat" where
  "blocked_items E cr [] st = st"
| "blocked_items E cr (it # its) (blocked_dates, k) =
     (if is_blocked_item it then
        (case parse_datetime_raw E k cr of
           (dt, k') \<Rightarrow> blocked_items E cr its (blocked_dates @ [dt], k'))
      else blocked_items E cr its (blocked_dates, k))"

fun blocked_changes :: "env \<Rightarrow> change list \<Rightarrow> datetime list \<times> nat \<Rightarrow> datetime list \<times> nat" where
  "blocked_changes E [] st = st"
| "blocked_changes E (c # cs) st =
     (case created c of
        None \<Rightarrow> blocked_changes E cs st
      | Some cr \<Rightarrow>
          if cr = [] then blocked_changes E cs st
          else blocked_changes E cs (blocked_items E cr (items c) st))"

text \<open>
  The loop \<^verbatim>\<open>for i in range(0, len(blocked_dates), 2)\<close>, with the counter \<open>i\<close>, the
  accumulator \<^verbatim>\<open>blocked_days\<close> and the number of clock reads.
\<close>

function blocked_loop :: "env \<Rightarrow> datetime list \<Rightarrow> nat \<Rightarrow> int \<times> nat \<Rightarrow> int \<times> nat" where
  "blocked_loop E blocked_dates i (blocked_days, k) =
     (if i < length blocked_dates then
        (let start_date = blocked_dates ! i in
         if i + 1 < length blocked_dates
         then blocked_loop E blocked_dates (i + 2)
                (blocked_days + timedelta_days (blocked_dates ! (i + 1)) start_date, k)
         else blocked_loop E blocked_dates (i + 2)
                (blocked_days + timedelta_days (clock E k) start_date, Suc k))
      else (blocked_days, k))"
  by pat_completeness auto
termination
  by (relation "measure (\<lambda>(E, ds, i, st). length ds - i)") auto

definition blocked_days_of :: "env \<Rightarrow> nat \<Rightarrow> change list \<Rightarrow> int \<times> nat" where
  "blocked_days_of E k changelog =
     (case blocked_changes E changelog ([], k) of
        (blocked_dates, k') \<Rightarrow> blocked_loop E blocked_dates 0 (0, k'))"

definition get_blocked_days :: "env \<Rightarrow> nat \<Rightarrow> string \<Rightarrow> error + int \<times> nat" where
  "get_blocked_days E k issue_key =
     (case fetch_issue_changelog E issue_key of
        Inl err \<Rightarrow> Inl err
      | Inr changelog \<Rightarrow> Inr (blocked_days_of E k changelog))"

section \<open>Unassigned time in peer review\<close>

text \<open>
  The dictionaries \<^verbatim>\<open>{"start": ..., "end": ...}\<close> and \<^verbatim>\<open>{"time": ..., "from": ..., "to": ...}\<close>.
\<close>

record period =
  period_start :: datetime
  period_end :: "datetime option"

record assignee_change =
  ac_time :: datetime
  ac_from :: "string option"
  ac_to :: "string option"

text \<open>
  \<^verbatim>\<open>for period in reversed(peer_review_periods): if period["end"] is None: ...; break\<close>:
  \<open>close_first_open\<close> walks a list from its head, \<open>close_latest_open\<close> applies it to the
  reversed list.
\<close>

fun close_first_open :: "datetime \<Rightarrow> period list \<Rightarrow> period list" where
  "close_first_open t [] = []"
| "close_first_open t (p # ps) =
     (if period_end p = None then p\<lparr>period_end := Some t\<rparr> # ps
      else p # close_first_open t ps)"

definition close_latest_open :: "datetime \<Rightarrow> period list \<Rightarrow> period list" where
  "close_latest_open t ps = rev (close_first_open t (rev ps))"

fun review_items ::
  "datetime \<Rightarrow> item list \<Rightarrow> period list \<times> assignee_change list \<Rightarrow> period list \<times> assignee_change list" where
  "review_items change_time [] st = st"
| "review_items change_time (it # its) (peer_review_periods, assignee_changes) =
     review_items change_time its
       (if field it = Some ''status'' then
          (if toString it = Some ''Peer Review''
           then (peer_review_periods @ [\<lparr>period_start = change_time, period_end = None\<rparr>],
                 assignee_changes)
           else if fromString it = Some ''Peer Review'' \<and> peer_review_periods \<noteq> []
           then (close_latest_open change_time peer_review_periods, assignee_changes)
           else (peer_review_periods, assignee_changes))
        else if field it = Some ''assignee''
        then (peer_review_periods,
              assignee_changes @
                [\<lparr>ac_time = change_time, ac_from = fromString it, ac_to = toString it\<rparr>])
        else (peer_review_periods, assignee_changes))"

fun review_changes ::
  "env \<Rightarrow> change list \<Rightarrow> (period list \<times> assignee_change list) \<times> nat \<Rightarrow>
   (period list \<times> assignee_change list) \<times> nat" where
  "review_changes E [] st = st"
| "review_changes E (c # cs) (st, k) =
     (case created c of
        None \<Rightarrow> review_changes E cs (st, k)
      | Some cr \<Rightarrow>
          if cr = [] then review_changes E cs (st, k)
          else (case parse_datetime_raw E k cr of
                  (change_time, k') \<Rightarrow>
                    review_changes E cs (review_items change_time (items c) st, k')))"

text \<open>
  \<^verbatim>\<open>if period["end"] is None: period["end"] = now\<close>. From here on every period has an end,
  so a period is the pair of its start and its end.
\<close>

definition resolve_end :: "datetime \<Rightarrow> period \<Rightarrow> datetime \<times> datetime" where
  "resolve_end now p =
     (period_start p, case period_end p of None \<Rightarrow> now | Some e \<Rightarrow> e)"

definition relevant_changes :: "assignee_change list \<Rightarrow> datetime \<times> datetime \<Rightarrow> assignee_change list" where
  "relevant_changes assignee_changes pe =
     sort_key (\<lambda>c. instant (ac_time c))
       (filter (\<lambda>c. instant (fst pe) \<le> instant (ac_time c) \<and>
                    instant (ac_time c) \<le> instant (snd pe)) assignee_changes)"

text \<open>
  \<^verbatim>\<open>total_unassigned\<close> is a \<^verbatim>\<open>pd.Timedelta\<close>: a 64-bit count of nanoseconds, here the
  integer it holds. \<^verbatim>\<open>total_unassigned += d\<close> with \<open>d\<close> the difference of two datetimes
  (a count of microseconds) converts \<open>d\<close> to nanoseconds and adds; pandas raises when
  the operand or the sum leaves the range of a \<^verbatim>\<open>Timedelta\<close>. The least 64-bit value
  stands for \<^verbatim>\<open>NaT\<close> and is outside the range; it is not a multiple of 1000, so no sum
  of such operands equals it.
\<close>

definition td_max :: int where
  "td_max = 9223372036854775807"

definition td_fits :: "int \<Rightarrow> bool" where
  "td_fits v \<longleftrightarrow> - td_max \<le> v \<and> v \<le> td_max"

definition td_add :: "int \<Rightarrow> int \<Rightarrow> error + int" where
  "td_add total_unassigned d =
     (if td_fits (d * 1000) \<and> td_fits (total_unassigned + d * 1000)
      then Inr (total_unassigned + d * 1000)
      else Inl Overflow)"

text \<open>
  The walk over the relevant changes: the state is \<^verbatim>\<open>current_time\<close>, \<^verbatim>\<open>assignee\<close> and
  \<^verbatim>\<open>total_unassigned\<close>. An exception ends the walk.
\<close>

fun walk_changes ::
  "assignee_change list \<Rightarrow> datetime \<times> string option \<times> int \<Rightarrow>
   error + datetime \<times> string option \<times> int" where
  "walk_changes [] st = Inr st"
| "walk_changes (c # cs) (current_time, assignee, total_unassigned) =
     (if assignee = None then
        (case td_add total_unassigned (instant (ac_time c) - instant current_time) of
           Inl err \<Rightarrow> Inl err
         | Inr tot \<Rightarrow> walk_changes cs (ac_time c, ac_to c, tot))
      else walk_changes cs (ac_time c, ac_to c, total_unassigned))"

definition period_unassigned ::
  "assignee_change list \<Rightarrow> int \<Rightarrow> datetime \<times> datetime \<Rightarrow> error + int" where
  "period_unassigned assignee_changes total_unassigned pe =
     (case walk_changes (relevant_changes assignee_changes pe) (fst pe, None, total_unassigned) of
        Inl err \<Rightarrow> Inl err
      | Inr (current_time, assignee, tot) \<Rightarrow>
          if assignee = None then td_add tot (instant (snd pe) - instant current_time)
          else Inr tot)"

fun unassigned_loop ::
  "assignee_change list \<Rightarrow> (datetime \<times> datetime) list \<Rightarrow> int \<Rightarrow> error + int" where
  "unassigned_loop assignee_changes [] total_unassigned = Inr total_unassigned"
| "unassigned_loop assignee_changes (pe # pes) total_unassigned =
     (case period_unassigned assignee_changes total_unassigned pe of
        Inl err \<Rightarrow> Inl err
      | Inr tot \<Rightarrow> unassigned_loop assignee_changes pes tot)"

definition unassigned_days_of :: "env \<Rightarrow> nat \<Rightarrow> change list \<Rightarrow> error + rat \<times> nat" where
  "unassigned_days_of E k changelog =
     (case review_changes E changelog (([], []), k) of
        ((peer_review_periods, assignee_changes), k') \<Rightarrow>
          (let now = clock E k' in
           case unassigned_loop assignee_changes
                  (map (resolve_end now) peer_review_periods) 0 of
             Inl err \<Rightarrow> Inl err
           | Inr total_unassigned \<Rightarrow> Inr (days_rounded E total_unassigned, Suc k')))"

text \<open>
  \<^verbatim>\<open>str.isspace\<close> on the characters below 256, which are the characters of a \<open>string\<close>.
\<close>

definition py_isspace :: "char \<Rightarrow> bool" where
  "py_isspace c \<longleftrightarrow>
     of_char c \<in> {9, 10, 11, 12, 13, 28, 29, 30, 31, 32, 133, 160 :: nat}"

definition strip :: "string \<Rightarrow> string" where
  "strip s = rev (dropWhile py_isspace (rev (dropWhile py_isspace s)))"

definition get_peer_review_unassigned_time :: "env \<Rightarrow> nat \<Rightarrow> string \<Rightarrow> error + rat \<times> nat" where
  "get_peer_review_unassigned_time E k issue_key =
     (if issue_key = [] \<or> strip issue_key = [] then Inr (0, k)
      else case fetch_issue_changelog E issue_key of
             Inl err \<Rightarrow> Inl err
           | Inr changelog \<Rightarrow> unassigned_days_of E k changelog)"

section \<open>Row assembly and derived metrics\<close>

text \<open>
  The columns of a row that are computed from the changelog and the creation date. The
  columns copied from the issue's fields (type, story points, priority, project code,
  team, sprint) and the year are left out.
\<close>

record issue =
  key :: string \<comment> \<open>\<^verbatim>\<open>issue.get("key", "")\<close>\<close>
  created_raw :: string \<comment> \<open>\<^verbatim>\<open>fields.get("created", "")\<close>\<close>

record row =
  col_id :: string
  col_backlog :: string
  col_in_progress :: string
  col_peer_review :: string
  col_pending_deploy :: string
  col_testing :: string
  col_approved :: string
  col_closed :: string
  col_blocked_days :: int
  col_unassigned :: rat
  col_end_date :: string

text \<open>\<^verbatim>\<open>status_dates.get(name, "")\<close> and \<^verbatim>\<open>a or b\<close> on texts.\<close>

definition get_or_empty :: "(string \<rightharpoonup> string) \<Rightarrow> string \<Rightarrow> string" where
  "get_or_empty sd name = (case sd name of None \<Rightarrow> [] | Some v \<Rightarrow> v)"

definition or_else :: "string \<Rightarrow> string \<Rightarrow> string" where
  "or_else a b = (if a \<noteq> [] then a else b)"

definition build_row :: "env \<Rightarrow> nat \<Rightarrow> issue \<Rightarrow> error + row \<times> nat" where
  "build_row E k iss =
     (case get_status_transition_dates E (key iss) of
        Inl err \<Rightarrow> Inl err
      | Inr status_dates \<Rightarrow>
          (let backlog = or_else (get_or_empty status_dates ''Backlog'') [];
               in_progress = or_else (get_or_empty status_dates ''In Progress'')
                               (or_else (get_or_empty status_dates ''InProgress'') []);
               peer_review = or_else (get_or_empty status_dates ''Peer Review'') [];
               pending_deploy = or_else (get_or_empty status_dates ''Pending Deployment'') [];
               testing = or_else (get_or_empty status_dates ''Testing'') [];
               approved = or_else (get_or_empty status_dates ''Approved for Release'') [];
               closed = or_else (get_or_empty status_dates ''Closed'') []
           in case get_blocked_days E k (key iss) of
                Inl err \<Rightarrow> Inl err
              | Inr (blocked_days, k1) \<Rightarrow>
                  (case get_peer_review_unassigned_time E k1 (key iss) of
                     Inl err \<Rightarrow> Inl err
                   | Inr (unassigned_peer_review_days, k2) \<Rightarrow>
                       Inr (\<lparr>col_id = key iss,
                             col_backlog =
                               or_else backlog
                                 (or_else (if created_raw iss = [] then []
                                           else parse_datetime E (created_raw iss)) []),
                             col_in_progress = in_progress,
                             col_peer_review = peer_review,
                             col_pending_deploy = pending_deploy,
                             col_testing = testing,
                             col_approved = approved,
                             col_closed = closed,
                             col_blocked_days = blocked_days,
                             col_unassigned = unassigned_peer_review_days,
                             col_end_date = or_else (min_date E [testing, approved, closed]) []\<rparr>,
                            k2))))"

text \<open>
  The calculated columns. \<^verbatim>\<open>(pd.to_datetime(a) - pd.to_datetime(b)).dt.days\<close> is the floor
  of the difference in days, and undefined (\<^verbatim>\<open>NaN\<close>, here \<open>None\<close>) when either cell is
  \<^verbatim>\<open>NaT\<close>.
\<close>

definition dt_days :: "env \<Rightarrow> string \<Rightarrow> string \<Rightarrow> int option" where
  "dt_days E a b =
     (case to_datetime E a of
        None \<Rightarrow> None
      | Some x \<Rightarrow>
          (case to_datetime E b of
             None \<Rightarrow> None
           | Some y \<Rightarrow> Some (timedelta_days x y)))"

definition cycle_time :: "env \<Rightarrow> row \<Rightarrow> int option" where
  "cycle_time E r = map_option (\<lambda>d. d + 1) (dt_days E (col_end_date r) (col_in_progress r))"

definition lead_time :: "env \<Rightarrow> row \<Rightarrow> int option" where
  "lead_time E r = map_option (\<lambda>d. d + 1) (dt_days E (col_end_date r) (col_backlog r))"

definition in_progress_time :: "env \<Rightarrow> row \<Rightarrow> int option" where
  "in_progress_time E r = dt_days E (col_peer_review r) (col_in_progress r)"

definition pr_time :: "env \<Rightarrow> row \<Rightarrow> int" where
  "pr_time E r =
     (case dt_days E (col_pending_deploy r) (col_peer_review r) of None \<Rightarrow> 0 | Some d \<Rightarrow> d)"

definition active_pr_time :: "env \<Rightarrow> row \<Rightarrow> rat" where
  "active_pr_time E r = of_int (pr_time E r) - col_unassigned r"

definition pd_time :: "env \<Rightarrow> row \<Rightarrow> int option" where
  "pd_time E r = map_option (\<lambda>d. d + 1) (dt_days E (col_end_date r) (col_pending_deploy r))"


text \<open>
  The quotient is the exact rational number; the program computes the double nearest
  to it, which has the same sign.
\<close>

definition flow_efficiency :: "env \<Rightarrow> row \<Rightarrow> rat" where
  "flow_efficiency E r =
     (case cycle_time E r of
        None \<Rightarrow> 0
      | Some c \<Rightarrow>
          (case lead_time E r of
             None \<Rightarrow> 0
           | Some l \<Rightarrow> if l \<noteq> 0 then of_int c / of_int l else 0))"

section \<open>A concrete environment\<close>

text \<open>
  The examples run in an environment that gives the library's answers on the inputs
  they use: timestamps as Jira writes them parse with the first format (the second
  format, which has no fraction, rejects them), \<^verbatim>\<open>not-a-Time\<close> parses with no format, and
  the clock starts at 2024-02-01T00:00:00 UTC and advances by a microsecond at each
  read. Of the rounded day counts it gives those of the three durations the examples
  return: none, two days and a half, and 31 days.
\<close>

definition y1700 :: datetime where
  "y1700 = \<lparr>instant = - 8520336000000000, ymd = ''1700-01-01''\<rparr>"

definition jan01 :: datetime where
  "jan01 = \<lparr>instant = 1704067200000000, ymd = ''2024-01-01''\<rparr>"

definition jan03_noon :: datetime where
  "jan03_noon = \<lparr>instant = 1704283200000000, ymd = ''2024-01-03''\<rparr>"

definition jan05 :: datetime where
  "jan05 = \<lparr>instant = 1704412800000000, ymd = ''2024-01-05''\<rparr>"

definition jan10 :: datetime where
  "jan10 = \<lparr>instant = 1704844800000000, ymd = ''2024-01-10''\<rparr>"

definition ex_strptime :: "string \<Rightarrow> string \<Rightarrow> datetime option" where
  "ex_strptime s fmt =
     map_of
       [((''1700-01-01T00:00:00.000+0000'', ''%Y-%m-%dT%H:%M:%S.%f%z''), y1700),
        ((''2024-01-01T00:00:00.000+0000'', ''%Y-%m-%dT%H:%M:%S.%f%z''), jan01),
        ((''2024-01-03T12:00:00.000+0000'', ''%Y-%m-%dT%H:%M:%S.%f%z''), jan03_noon),
        ((''2024-01-05T00:00:00.000+0000'', ''%Y-%m-%dT%H:%M:%S.%f%z''), jan05),
        ((''2024-01-10T00:00:00.000+0000'', ''%Y-%m-%dT%H:%M:%S.%f%z''), jan10),
        ((''2024-01-01'', ''%Y-%m-%d''), jan01),
        ((''2024-01-05'', ''%Y-%m-%d''), jan05),
        ((''2024-01-10'', ''%Y-%m-%d''), jan10)]
       (s, fmt)"

definition ex_clock :: "nat \<Rightarrow> datetime" where
  "ex_clock n = \<lparr>instant = 1706745600000000 + int n, ymd = ''2024-02-01''\<rparr>"

definition ex_to_datetime :: "string \<Rightarrow> datetime option" where
  "ex_to_datetime s =
     map_of [(''2024-01-01'', jan01), (''2024-01-05'', jan05), (''2024-01-10'', jan10)] s"

definition ex_days_rounded :: "int \<Rightarrow> rat" where
  "ex_days_rounded v =
     (case map_of [(0, 0), (216000000000000, 5 / 2), (2678400000000000, 31)] v of
        Some r \<Rightarrow> r
      | None \<Rightarrow> 0)"

definition status_change :: "string \<Rightarrow> string option \<Rightarrow> string option \<Rightarrow> change" where
  "status_change cr a b =
     \<lparr>created = Some cr,
      items = [\<lparr>field = Some ''status'', fromString = a, toString = b\<rparr>]\<rparr>"

definition assignee_change_at :: "string \<Rightarrow> string option \<Rightarrow> string option \<Rightarrow> change" where
  "assignee_change_at cr a b =
     \<lparr>created = Some cr,
      items = [\<lparr>field = Some ''assignee'', fromString = a, toString = b\<rparr>]\<rparr>"

text \<open>Scenario B: Blocked is entered twice, on January 1st and on January 3rd at noon.\<close>

definition cl_blocked_twice :: "change list" where
  "cl_blocked_twice =
     [status_change ''2024-01-01T00:00:00.000+0000'' (Some ''In Progress'') (Some ''Blocked''),
      status_change ''2024-01-03T12:00:00.000+0000'' (Some ''In Progress'') (Some ''Blocked'')]"


text \<open>Blocked is entered and left, and the changelog lists the later event first.\<close>

definition cl_blocked_unsorted :: "change list" where
  "cl_blocked_unsorted =
     [status_change ''2024-01-03T12:00:00.000+0000'' (Some ''Blocked'') (Some ''In Progress''),
      status_change ''2024-01-01T00:00:00.000+0000'' (Some ''In Progress'') (Some ''Blocked'')]"

definition cl_blocked_sorted :: "change list" where
  "cl_blocked_sorted =
     [status_change ''2024-01-01T00:00:00.000+0000'' (Some ''In Progress'') (Some ''Blocked''),
      status_change ''2024-01-03T12:00:00.000+0000'' (Some ''Blocked'') (Some ''In Progress'')]"

text \<open>Blocked is entered at a timestamp that does not parse, and left on January 5th.\<close>

definition cl_blocked_malformed :: "change list" where
  "cl_blocked_malformed =
     [status_change ''not-a-Time'' (Some ''In Progress'') (Some ''Blocked''),
      status_change ''2024-01-05T00:00:00.000+0000'' (Some ''Blocked'') (Some ''In Progress'')]"

text \<open>Scenario C: Peer Review is entered and never left.\<close>

definition cl_review_open :: "change list" where
  "cl_review_open =
     [status_change ''2024-01-01T00:00:00.000+0000'' (Some ''In Progress'') (Some ''Peer Review'')]"





text \<open>The log starts inside a review: its first event leaves Peer Review.\<close>

definition cl_review_exit_first :: "change list" where
  "cl_review_exit_first =
     [status_change ''2024-01-01T00:00:00.000+0000'' (Some ''Peer Review'') (Some ''Testing'')]"

text \<open>Testing is entered twice, and the changelog lists the later entry first.\<close>

definition cl_testing_twice :: "change list" where
  "cl_testing_twice =
     [status_change ''2024-01-05T00:00:00.000+0000'' (Some ''In Progress'') (Some ''Testing''),
      status_change ''2024-01-01T00:00:00.000+0000'' (Some ''Backlog'') (Some ''Testing'')]"

text \<open>
  An item that goes from Backlog to Testing and is moved to In Progress for the first
  time afterwards.
\<close>

definition cl_testing_first :: "change list" where
  "cl_testing_first =
     [status_change ''2024-01-01T00:00:00.000+0000'' None (Some ''Backlog''),
      status_change ''2024-01-05T00:00:00.000+0000'' (Some ''Backlog'') (Some ''Testing''),
      status_change ''2024-01-10T00:00:00.000+0000'' (Some ''Testing'') (Some ''In Progress'')]"

text \<open>An item with no transition into Backlog.\<close>

definition cl_no_backlog :: "change list" where
  "cl_no_backlog =
     [status_change ''2024-01-05T00:00:00.000+0000'' (Some ''To Do'') (Some ''In Progress''),
      status_change ''2024-01-10T00:00:00.000+0000'' (Some ''In Progress'') (Some ''Testing'')]"

definition ex_fetch :: "string \<Rightarrow> error + change list" where
  "ex_fetch k =
     (case map_of [(''DEMO-1'', cl_testing_first), (''DEMO-2'', cl_no_backlog)] k of
        Some cl \<Rightarrow> Inr cl
      | None \<Rightarrow> Inl (Failed (''Failed to retrieve changelog for '' @ k)))"

definition ex_env :: env where
  "ex_env =
     \<lparr>strptime = ex_strptime, clock = ex_clock,
      fetch_issue_changelog = ex_fetch, to_datetime = ex_to_datetime,
      days_rounded = ex_days_rounded\<rparr>"

definition issue_demo1 :: issue where
  "issue_demo1 = \<lparr>key = ''DEMO-1'', created_raw = ''2024-01-01T00:00:00.000+0000''\<rparr>"


section \<open>Interval pairing as the specification words it\<close>

text \<open>
  The specification describes the pairing of the blocked events twice. By position:
  the first event with the second, the third with the fourth, and so on, a last event
  without a partner giving an open interval.
\<close>

fun pair_by_position :: "datetime list \<Rightarrow> (datetime \<times> datetime option) list" where
  "pair_by_position [] = []"
| "pair_by_position [a] = [(a, None)]"
| "pair_by_position (a # b # rest) = (a, Some b) # pair_by_position rest"

text \<open>The whole days of an interval, its end resolved to \<open>now\<close> when it is open.\<close>

definition interval_days :: "datetime \<Rightarrow> datetime \<times> datetime option \<Rightarrow> int" where
  "interval_days now iv =
     timedelta_days (case snd iv of None \<Rightarrow> now | Some e \<Rightarrow> e) (fst iv)"

definition open_count :: "(datetime \<times> datetime option) list \<Rightarrow> nat" where
  "open_count ivs = length (filter (\<lambda>iv. snd iv = None) ivs)"

section \<open>The events that enter a status\<close>

text \<open>
  The events of a changelog that enter a status, in the order of the changelog, each
  with the text of its timestamp: the items of the field \<^verbatim>\<open>status\<close> with a status name
  that is not empty, in the changes with a timestamp that is not empty.
\<close>

fun item_entries :: "string \<Rightarrow> item list \<Rightarrow> (string \<times> string) list" where
  "item_entries cr [] = []"
| "item_entries cr (it # its) =
     (if field it = Some ''status'' then
        (case toString it of
           None \<Rightarrow> []
         | Some s \<Rightarrow> if s \<noteq> [] then [(cr, s)] else [])
      else []) @ item_entries cr its"

fun status_entries :: "change list \<Rightarrow> (string \<times> string) list" where
  "status_entries [] = []"
| "status_entries (c # cs) =
     (case created c of
        None \<Rightarrow> []
      | Some cr \<Rightarrow> if cr = [] then [] else item_entries cr (items c)) @ status_entries cs"

definition first_entry :: "string \<Rightarrow> (string \<times> string) list \<Rightarrow> (string \<times> string) option" where
  "first_entry s es = find (\<lambda>e. snd e = s) es"

text \<open>
  The instant of an entry, for the chronological order of the entries; an entry whose
  timestamp does not parse gets 0.
\<close>

definition entry_instant :: "env \<Rightarrow> string \<times> string \<Rightarrow> int" where
  "entry_instant E e =
     (case try_formats E (fst e) fmts of None \<Rightarrow> 0 | Some dt \<Rightarrow> instant dt)"

section \<open>Sorting a changelog by timestamp\<close>

text \<open>
  The instant of a change, by which the specification sorts a changelog. A change with
  no timestamp, or with one that does not parse, gets 0; the examples sort changelogs
  whose timestamps all parse.
\<close>

definition change_instant :: "env \<Rightarrow> change \<Rightarrow> int" where
  "change_instant E c =
     (case created c of
        None \<Rightarrow> 0
      | Some cr \<Rightarrow> (case try_formats E cr fmts of None \<Rightarrow> 0 | Some dt \<Rightarrow> instant dt))"

section \<open>Interval pairing as a scan\<close>

text \<open>
  The second wording of the specification: the events are scanned from left to right;
  the first event opens an interval, and every later event closes the interval that is
  open, or opens a new one when none is. The state is the start of the open interval.
\<close>

fun alternate_scan ::
  "datetime option \<Rightarrow> datetime list \<Rightarrow> (datetime \<times> datetime option) list" where
  "alternate_scan None [] = []"
| "alternate_scan (Some s) [] = [(s, None)]"
| "alternate_scan None (t # ts) = alternate_scan (Some t) ts"
| "alternate_scan (Some s) (t # ts) = (s, Some t) # alternate_scan None ts"

definition exit_blocked_item :: item where
  "exit_blocked_item =
     \<lparr>field = Some ''status'', fromString = Some ''Blocked'', toString = Some ''In Progress''\<rparr>"

definition enter_review_item :: item where
  "enter_review_item =
     \<lparr>field = Some ''status'', fromString = Some ''In Progress'', toString = Some ''Peer Review''\<rparr>"

definition exit_review_item :: item where
  "exit_review_item =
     \<lparr>field = Some ''status'', fromString = Some ''Peer Review'', toString = Some ''Testing''\<rparr>"

section \<open>Two assembled rows\<close>

definition row_demo1 :: row where
  "row_demo1 =
     \<lparr>col_id = ''DEMO-1'', col_backlog = ''2024-01-01'', col_in_progress = ''2024-01-10'',
      col_peer_review = [], col_pending_deploy = [], col_testing = ''2024-01-05'',
      col_approved = [], col_closed = [], col_blocked_days = 0, col_unassigned = 0,
      col_end_date = ''2024-01-05''\<rparr>"

definition row_demo2 :: row where
  "row_demo2 =
     \<lparr>col_id = ''DEMO-2'', col_backlog = ''2024-01-01'', col_in_progress = ''2024-01-05'',
      col_peer_review = [], col_pending_deploy = [], col_testing = ''2024-01-10'',
      col_approved = [], col_closed = [], col_blocked_days = 0, col_unassigned = 0,
      col_end_date = ''2024-01-10''\<rparr>"


definition row_demo3 :: row where
  "row_demo3 = row_demo2\<lparr>col_backlog := []\<rparr>"

section \<open>Items that open and leave a review\<close>






section \<open>The blocked timestamps of a changelog, as instants\<close>

text \<open>
  The number of blocked events of a change, the instants they contribute in a changelog
  whose timestamps parse, and the blocked days of a list of instants paired by position.
\<close>

definition blocked_count :: "change \<Rightarrow> nat" where
  "blocked_count c =
     (case created c of
        None \<Rightarrow> 0
      | Some cr \<Rightarrow> if cr = [] then 0 else length (filter is_blocked_item (items c)))"

definition created_parses :: "env \<Rightarrow> change \<Rightarrow> bool" where
  "created_parses E c =
     (case created c of
        None \<Rightarrow> True
      | Some cr \<Rightarrow> cr = [] \<or> try_formats E cr fmts \<noteq> None)"

definition blocked_instants :: "env \<Rightarrow> change list \<Rightarrow> int list" where
  "blocked_instants E cl =
     concat (map (\<lambda>c. replicate (blocked_count c) (change_instant E c)) cl)"

fun pair_days :: "int \<Rightarrow> int list \<Rightarrow> int" where
  "pair_days now [] = 0"
| "pair_days now [a] = (now - a) div day_us"
| "pair_days now (a # b # rest) = (b - a) div day_us + pair_days now rest"

section \<open>The loops of the blocked-day computation\<close>

declare blocked_loop.simps [simp del]

lemma strip_empty_iff: "strip s = [] \<longleftrightarrow> (\<forall>c\<in>set s. py_isspace c)"
proof
  assume a: "strip s = []"
  show "\<forall>c\<in>set s. py_isspace c"
  proof (cases "dropWhile py_isspace s = []")
    case True
    then show ?thesis by (simp add: dropWhile_eq_Nil_conv)
  next
    case False
    then have "\<not> py_isspace (hd (dropWhile py_isspace s))"
      by (rule hd_dropWhile)
    moreover from a have "\<forall>x\<in>set (dropWhile py_isspace s). py_isspace x"
      by (simp add: strip_def dropWhile_eq_Nil_conv)
    ultimately show ?thesis using False by (meson hd_in_set)
  qed
next
  assume "\<forall>c\<in>set s. py_isspace c"
  then have "dropWhile py_isspace s = []"
    by (simp add: dropWhile_eq_Nil_conv)
  then show "strip s = []"
    unfolding strip_def by (simp only: rev.simps dropWhile.simps)
qed

lemma drop_pairs_two:
  "Suc i < length ds \<Longrightarrow>
   pair_by_position (drop i ds) = (ds ! i, Some (ds ! Suc i)) # pair_by_position (drop (i + 2) ds)"
proof -
  assume a: "Suc i < length ds"
  then have "drop i ds = ds ! i # ds ! Suc i # drop (i + 2) ds"
    by (metis Cons_nth_drop_Suc Suc_lessD add_2_eq_Suc')
  then show ?thesis by simp
qed

lemma drop_pairs_one:
  "i < length ds \<Longrightarrow> \<not> Suc i < length ds \<Longrightarrow> pair_by_position (drop i ds) = [(ds ! i, None)]"
proof -
  assume a: "i < length ds" "\<not> Suc i < length ds"
  then have "drop i ds = [ds ! i]"
    by (metis Cons_nth_drop_Suc drop_all not_less)
  then show ?thesis by simp
qed

lemma blocked_loop_exit:
  "\<not> i < length ds \<Longrightarrow> blocked_loop E ds i (acc, k) = (acc, k)"
  by (subst blocked_loop.simps) simp

lemma blocked_loop_closed:
  "Suc i < length ds \<Longrightarrow>
   blocked_loop E ds i (acc, k) =
     blocked_loop E ds (i + 2) (acc + timedelta_days (ds ! (i + 1)) (ds ! i), k)"
  by (subst blocked_loop.simps) (simp add: Let_def)

lemma blocked_loop_open:
  "i < length ds \<Longrightarrow> \<not> Suc i < length ds \<Longrightarrow>
   blocked_loop E ds i (acc, k) = (acc + timedelta_days (clock E k) (ds ! i), Suc k)"
  by (subst blocked_loop.simps) (simp add: Let_def blocked_loop_exit)

lemma blocked_loop_pairs:
  "blocked_loop E ds i (acc, k) =
     (acc + sum_list (map (interval_days (clock E k)) (pair_by_position (drop i ds))),
      k + open_count (pair_by_position (drop i ds)))"
proof (induction E ds i "(acc, k)" arbitrary: acc k rule: blocked_loop.induct)
  case (1 E ds i acc k)
  show ?case
  proof (cases "i < length ds")
    case False
    then show ?thesis by (simp add: blocked_loop_exit open_count_def)
  next
    case True
    show ?thesis
    proof (cases "Suc i < length ds")
      case t: True
      then have t': "i + 1 < length ds" by simp
      have "blocked_loop E ds i (acc, k) =
              blocked_loop E ds (i + 2) (acc + timedelta_days (ds ! (i + 1)) (ds ! i), k)"
        using t by (rule blocked_loop_closed)
      also have "\<dots> =
         (acc + timedelta_days (ds ! (i + 1)) (ds ! i) +
            sum_list (map (interval_days (clock E k)) (pair_by_position (drop (i + 2) ds))),
          k + open_count (pair_by_position (drop (i + 2) ds)))"
        using True t' by (rule 1(1) [OF _ refl])
      finally show ?thesis
        by (simp add: drop_pairs_two [OF t] interval_days_def open_count_def)
    next
      case f: False
      show ?thesis
        by (simp add: blocked_loop_open [OF True f] drop_pairs_one [OF True f]
            interval_days_def open_count_def)
    qed
  qed
qed

lemma open_count_pairs: "open_count (pair_by_position ds) = length ds mod 2"
  by (induction ds rule: pair_by_position.induct) (simp_all add: open_count_def)

lemmas ex_defs = ex_env_def ex_strptime_def ex_clock_def ex_fetch_def ex_to_datetime_def
  status_change_def assignee_change_at_def ex_days_rounded_def y1700_def jan01_def jan03_noon_def jan05_def jan10_def fmts_def

section \<open>Blocked days: pairing by position\<close>

text \<open>
  Claim C1. The blocked events of an item are paired strictly by position, whatever
  their labels: with \<open>dates\<close> the timestamps \<open>get_blocked_days\<close> collects, the total it
  returns is the sum, over the intervals of \<open>pair_by_position dates\<close>, of the whole days
  between the start and the end (the clock's reading when the last interval is open).
  In particular two changes that both enter Blocked, at \<open>t0\<close> and at \<open>t1\<close>, give the one
  interval from \<open>t0\<close> to \<open>t1\<close> and the floor of its length in days. The days of an
  interval are the floor of its length: a partial day is never rounded up.
\<close>

theorem blocked_days_pairs_by_position:
  assumes "blocked_changes E changelog ([], k) = (dates, k')"
  shows "blocked_days_of E k changelog =
           (sum_list (map (interval_days (clock E k')) (pair_by_position dates)),
            k' + length dates mod 2)
         \<and> (c0 \<noteq> [] \<and> c1 \<noteq> [] \<and> try_formats E c0 fmts = Some t0 \<and> try_formats E c1 fmts = Some t1 \<longrightarrow>
              blocked_days_of E k
                [status_change c0 a0 (Some ''Blocked''), status_change c1 a1 (Some ''Blocked'')] =
              ((instant t1 - instant t0) div 86400000000, k))
         \<and> timedelta_days b a * 86400000000 \<le> instant b - instant a
         \<and> instant b - instant a < (timedelta_days b a + 1) * 86400000000"
proof (intro conjI impI)
  show "blocked_days_of E k changelog =
           (sum_list (map (interval_days (clock E k')) (pair_by_position dates)),
            k' + length dates mod 2)"
    using assms by (simp add: blocked_days_of_def blocked_loop_pairs open_count_pairs)
next
  assume h: "c0 \<noteq> [] \<and> c1 \<noteq> [] \<and> try_formats E c0 fmts = Some t0 \<and> try_formats E c1 fmts = Some t1"
  then have "blocked_changes E
      [status_change c0 a0 (Some ''Blocked''), status_change c1 a1 (Some ''Blocked'')] ([], k) =
      ([t0, t1], k)"
    by (simp add: status_change_def is_blocked_item_def parse_datetime_raw_def)
  then show "blocked_days_of E k
                [status_change c0 a0 (Some ''Blocked''), status_change c1 a1 (Some ''Blocked'')] =
              ((instant t1 - instant t0) div 86400000000, k)"
    by (simp add: blocked_days_of_def blocked_loop_pairs open_count_pairs interval_days_def
        timedelta_days_def day_us_def open_count_def)
next
  show "timedelta_days b a * 86400000000 \<le> instant b - instant a"
    unfolding timedelta_days_def day_us_def
    using pos_mod_sign [of 86400000000 "instant b - instant a"]
      div_mult_mod_eq [of "instant b - instant a" 86400000000] by simp
  show "instant b - instant a < (timedelta_days b a + 1) * 86400000000"
    unfolding timedelta_days_def day_us_def
    using pos_mod_bound [of 86400000000 "instant b - instant a"]
      div_mult_mod_eq [of "instant b - instant a" 86400000000] by simp
qed

theorem blocked_days_pairs_by_position_witness:
  "blocked_changes ex_env cl_blocked_twice ([], 0) = ([jan01, jan03_noon], 0) \<and>
   pair_by_position [jan01, jan03_noon] = [(jan01, Some jan03_noon)] \<and>
   blocked_days_of ex_env 0 cl_blocked_twice = (2, 0)"
proof -
  have h: "blocked_changes ex_env cl_blocked_twice ([], 0) = ([jan01, jan03_noon], 0)"
    by (simp add: cl_blocked_twice_def is_blocked_item_def parse_datetime_raw_def ex_defs)
  from blocked_days_pairs_by_position [OF h] h show ?thesis
    by (simp add: interval_days_def timedelta_days_def day_us_def jan01_def jan03_noon_def)
qed

section \<open>A blank issue key\<close>

text \<open>
  Claim C10. For an issue key that is empty or consists of whitespace only,
  \<open>get_peer_review_unassigned_time\<close> returns \<open>0.0\<close>, in every environment: the changelog
  is not fetched (the result is the same when fetching would fail) and the clock is not
  read.
\<close>

theorem blank_key_unassigned_zero:
  assumes "issue_key = [] \<or> (\<forall>c\<in>set issue_key. py_isspace c)"
  shows "get_peer_review_unassigned_time E k issue_key = Inr (0, k)"
  using assms by (auto simp: get_peer_review_unassigned_time_def strip_empty_iff)

theorem blank_key_unassigned_zero_witness:
  "py_isspace CHR '' '' \<and>
   fetch_issue_changelog ex_env ''  '' = Inl (Failed ''Failed to retrieve changelog for   '') \<and>
   get_peer_review_unassigned_time ex_env 0 ''  '' = Inr (0, 0)"
proof -
  have s: "py_isspace CHR '' ''" by (simp add: py_isspace_def)
  then have "''  '' = [] \<or> (\<forall>c\<in>set ''  ''. py_isspace c)" by simp
  from blank_key_unassigned_zero [OF this, of ex_env 0] s show ?thesis
    by (simp add: ex_env_def ex_fetch_def)
qed

section \<open>Unassigned time: a review with no change of owner\<close>







lemma ex_days_rounded_zero: "days_rounded ex_env 0 = 0"
  by (simp add: ex_env_def ex_days_rounded_def)



section \<open>Open intervals end at the clock's reading\<close>
















section \<open>Status dates: the first entry in the order of the log\<close>

lemma first_entry_append:
  "first_entry s (xs @ ys) =
     (case first_entry s xs of None \<Rightarrow> first_entry s ys | Some e \<Rightarrow> Some e)"
  by (induction xs) (simp_all add: first_entry_def)

lemma status_items_first:
  "status_items E cr its sd s =
     (case sd s of
        Some d \<Rightarrow> Some d
      | None \<Rightarrow> map_option (\<lambda>e. parse_datetime E (fst e)) (first_entry s (item_entries cr its)))"
proof (induction its arbitrary: sd)
  case Nil
  then show ?case by (simp add: first_entry_def split: option.splits)
next
  case (Cons it its)
  show ?case
    by (simp add: Cons.IH first_entry_append) (auto simp: first_entry_def split: option.splits)
qed

lemma status_changes_first:
  "status_changes E cl sd s =
     (case sd s of
        Some d \<Rightarrow> Some d
      | None \<Rightarrow> map_option (\<lambda>e. parse_datetime E (fst e)) (first_entry s (status_entries cl)))"
proof (induction cl arbitrary: sd)
  case Nil
  then show ?case by (simp add: first_entry_def split: option.splits)
next
  case (Cons c cl)
  show ?case
    by (simp add: Cons.IH first_entry_append status_items_first split: option.splits)
      (simp add: first_entry_def)
qed

lemma status_changes_append:
  "status_changes E (a @ b) sd = status_changes E b (status_changes E a sd)"
  by (induction a arbitrary: sd) (simp_all split: option.splits)

lemma first_entry_earliest:
  assumes s: "sorted (map f es)"
    and f: "first_entry st es = Some e"
    and m: "e' \<in> set es" and p: "snd e' = st"
  shows "f e \<le> f e'"
proof -
  from f obtain i where i: "i < length es" "es ! i = e" "\<forall>j<i. \<not> snd (es ! j) = st"
    unfolding first_entry_def find_Some_iff by blast
  from m obtain j where j: "j < length es" "es ! j = e'"
    by (auto simp: in_set_conv_nth)
  have "i \<le> j"
  proof (rule ccontr)
    assume "\<not> i \<le> j"
    then have "j < i" by simp
    with i(3) have "\<not> snd (es ! j) = st" by blast
    with j(2) p show False by simp
  qed
  with s j(1) have "map f es ! i \<le> map f es ! j"
    by (simp add: sorted_iff_nth_mono)
  with i j show ?thesis by simp
qed

text \<open>
  Claim C4, as amended. The status map sends each status to the date text of the first
  event, in the order in which the changelog lists the events, that entered that
  status; when the changelog lists the events in chronological order, no event that
  entered the status is earlier than that one. Events that enter the status later in
  the log never overwrite it, and an empty log yields the empty map.
\<close>

theorem status_dates_first_in_log_order:
  "status_dates_of E changelog s =
     map_option (\<lambda>e. parse_datetime E (fst e)) (first_entry s (status_entries changelog))
   \<and> (sorted (map (entry_instant E) (status_entries changelog)) \<and>
       first_entry s (status_entries changelog) = Some e \<and>
       e' \<in> set (status_entries changelog) \<and> snd e' = s \<longrightarrow>
        entry_instant E e \<le> entry_instant E e')
   \<and> (status_dates_of E changelog s = Some d \<longrightarrow>
        status_dates_of E (changelog @ later) s = Some d)
   \<and> status_dates_of E [] = Map.empty"
proof (intro conjI impI)
  show "status_dates_of E changelog s =
     map_option (\<lambda>e. parse_datetime E (fst e)) (first_entry s (status_entries changelog))"
    by (simp add: status_dates_of_def status_changes_first)
next
  assume "sorted (map (entry_instant E) (status_entries changelog)) \<and>
       first_entry s (status_entries changelog) = Some e \<and>
       e' \<in> set (status_entries changelog) \<and> snd e' = s"
  then show "entry_instant E e \<le> entry_instant E e'"
    using first_entry_earliest [of "entry_instant E" "status_entries changelog" s e e'] by simp
next
  assume "status_dates_of E changelog s = Some d"
  then show "status_dates_of E (changelog @ later) s = Some d"
    by (simp add: status_dates_of_def status_changes_append
        status_changes_first [of E later "status_changes E changelog Map.empty" s])
next
  show "status_dates_of E [] = Map.empty"
    by (simp add: status_dates_of_def)
qed

theorem status_dates_first_in_log_order_witness:
  "status_dates_of ex_env cl_testing_first ''Testing'' = Some ''2024-01-05'' \<and>
   first_entry ''Testing'' (status_entries cl_no_backlog) =
     Some (''2024-01-10T00:00:00.000+0000'', ''Testing'') \<and>
   status_dates_of ex_env (cl_testing_first @ cl_no_backlog) ''Testing'' = Some ''2024-01-05'' \<and>
   status_entries cl_blocked_twice =
     [(''2024-01-01T00:00:00.000+0000'', ''Blocked''),
      (''2024-01-03T12:00:00.000+0000'', ''Blocked'')] \<and>
   map (entry_instant ex_env) (status_entries cl_blocked_twice) =
     [instant jan01, instant jan03_noon] \<and>
   instant jan01 \<le> instant jan03_noon \<and>
   status_dates_of ex_env cl_blocked_twice ''Blocked'' = Some ''2024-01-01''"
proof -
  have a: "status_dates_of ex_env cl_testing_first ''Testing'' = Some ''2024-01-05''"
    by (simp add: status_dates_of_def cl_testing_first_def parse_datetime_def ex_defs)
  have b: "first_entry ''Testing'' (status_entries cl_no_backlog) =
     Some (''2024-01-10T00:00:00.000+0000'', ''Testing'')"
    by (simp add: cl_no_backlog_def first_entry_def status_change_def)
  have c: "status_entries cl_blocked_twice =
     [(''2024-01-01T00:00:00.000+0000'', ''Blocked''),
      (''2024-01-03T12:00:00.000+0000'', ''Blocked'')]"
    by (simp add: cl_blocked_twice_def status_change_def)
  have d: "map (entry_instant ex_env) (status_entries cl_blocked_twice) =
     [instant jan01, instant jan03_noon]"
    unfolding c by (simp add: entry_instant_def ex_defs)
  have e: "instant jan01 \<le> instant jan03_noon"
    by (simp add: jan01_def jan03_noon_def)
  have f: "status_dates_of ex_env cl_blocked_twice ''Blocked'' = Some ''2024-01-01''"
    by (simp add: status_dates_of_def cl_blocked_twice_def parse_datetime_def ex_defs)
  from status_dates_first_in_log_order
         [of ex_env cl_testing_first "''Testing''" "(''2024-01-05T00:00:00.000+0000'', ''Testing'')"
             "(''2024-01-05T00:00:00.000+0000'', ''Testing'')" "''2024-01-05''" cl_no_backlog]
       status_dates_first_in_log_order
         [of ex_env cl_blocked_twice "''Blocked''" "(''2024-01-01T00:00:00.000+0000'', ''Blocked'')"
             "(''2024-01-03T12:00:00.000+0000'', ''Blocked'')" "''2024-01-01''" "[]"]
    a b c d e f
  show ?thesis by simp
qed

text \<open>
  The claim as stated speaks of the chronologically earliest entry. The changelog is
  not sorted: here Testing is entered on January 1st and on January 5th, the log lists
  the later entry first, and the map holds January 5th.
\<close>

theorem status_dates_not_earliest:
  "status_dates_of ex_env cl_testing_twice ''Testing'' = Some ''2024-01-05'' \<and>
   status_entries cl_testing_twice =
     [(''2024-01-05T00:00:00.000+0000'', ''Testing''),
      (''2024-01-01T00:00:00.000+0000'', ''Testing'')] \<and>
   try_formats ex_env ''2024-01-05T00:00:00.000+0000'' fmts = Some jan05 \<and>
   try_formats ex_env ''2024-01-01T00:00:00.000+0000'' fmts = Some jan01 \<and>
   instant jan01 < instant jan05 \<and>
   parse_datetime ex_env ''2024-01-01T00:00:00.000+0000'' = ''2024-01-01''"
  by (simp add: status_dates_of_def cl_testing_twice_def parse_datetime_def ex_defs)

section \<open>Sorting before pairing\<close>

lemma sorted_distinct_keys_unique:
  assumes m: "mset xs = mset ys"
    and sx: "sorted (map f xs)" and sy: "sorted (map f ys)"
    and d: "distinct (map f ys)"
  shows "xs = ys"
proof -
  from m have mm: "mset (map f ys) = mset (map f xs)" by simp
  have "sort (map f xs) = map f ys"
    using mm sy by (rule properties_for_sort)
  moreover have "sort (map f xs) = map f xs"
    using sx by (rule sorted_sort_id)
  ultimately have e: "map f xs = map f ys" by simp
  from m have s: "set xs = set ys" by (rule mset_eq_setD)
  from d have "inj_on f (set ys)" by (simp add: distinct_map)
  with s have "inj_on f (set xs \<union> set ys)" by simp
  with e show ?thesis by (simp add: inj_on_map_eq_map)
qed

lemma floor_days_neg:
  assumes "x \<noteq> (0::int)"
  shows "x div day_us \<noteq> (- x) div day_us"
proof
  assume e: "x div day_us = (- x) div day_us"
  define q where "q = x div 86400000000"
  define r1 where "r1 = x mod 86400000000"
  define r2 where "r2 = (- x) mod 86400000000"
  have p: "(0::int) < 86400000000" by simp
  have a: "q * 86400000000 + r1 = x"
    unfolding q_def r1_def by (rule div_mult_mod_eq)
  from e have "(- x) div 86400000000 = q"
    by (simp add: q_def day_us_def)
  then have b: "q * 86400000000 + r2 = - x"
    unfolding r2_def using div_mult_mod_eq [of "- x" 86400000000] by simp
  have r: "0 \<le> r1" "r1 < 86400000000" "0 \<le> r2" "r2 < 86400000000"
    unfolding r1_def r2_def by simp_all
  from a b have s: "2 * q * 86400000000 + r1 + r2 = 0" by simp
  have "q = 0"
  proof (rule ccontr)
    assume "q \<noteq> 0"
    then consider "q \<le> - 1" | "1 \<le> q" by linarith
    then show False
    proof cases
      case 1
      then have "q * 86400000000 \<le> - 86400000000" by simp
      with s r show False by simp
    next
      case 2
      then have "86400000000 \<le> q * 86400000000" by simp
      with s r show False by simp
    qed
  qed
  with s r have "r1 = 0" by simp
  with a \<open>q = 0\<close> have "x = 0" by simp
  with assms show False by simp
qed

lemma blocked_items_parsed:
  "try_formats E cr fmts = Some dt \<Longrightarrow>
   blocked_items E cr its (ds, k) = (ds @ replicate (length (filter is_blocked_item its)) dt, k)"
proof (induction its arbitrary: ds)
  case Nil
  then show ?case by simp
next
  case (Cons it its)
  from Cons.prems have p: "parse_datetime_raw E k cr = (dt, k)"
    by (simp add: parse_datetime_raw_def)
  show ?case
    by (simp add: p Cons.IH [OF Cons.prems] replicate_app_Cons_same)
qed

lemma blocked_changes_parsed:
  "list_all (created_parses E) cl \<Longrightarrow>
   map instant (fst (blocked_changes E cl (ds, k))) = map instant ds @ blocked_instants E cl \<and>
   snd (blocked_changes E cl (ds, k)) = k"
proof (induction cl arbitrary: ds)
  case Nil
  then show ?case by (simp add: blocked_instants_def)
next
  case (Cons c cl)
  from Cons.prems have h: "created_parses E c" and r: "list_all (created_parses E) cl"
    by simp_all
  have u: "blocked_instants E (c # cl) =
      replicate (blocked_count c) (change_instant E c) @ blocked_instants E cl"
    by (simp add: blocked_instants_def)
  show ?case
  proof (cases "created c = None \<or> created c = Some []")
    case True
    then have "blocked_count c = 0" by (auto simp: blocked_count_def)
    with True Cons.IH [OF r, of ds] u show ?thesis by auto
  next
    case False
    then obtain cr where cr: "created c = Some cr" "cr \<noteq> []" by auto
    with h obtain dt where dt: "try_formats E cr fmts = Some dt"
      by (auto simp: created_parses_def)
    from cr dt have i: "change_instant E c = instant dt"
      by (simp add: change_instant_def)
    from cr have n: "blocked_count c = length (filter is_blocked_item (items c))"
      by (simp add: blocked_count_def)
    from cr have "blocked_changes E (c # cl) (ds, k) =
        blocked_changes E cl (ds @ replicate (blocked_count c) dt, k)"
      by (simp add: blocked_items_parsed [OF dt] n)
    with Cons.IH [OF r, of "ds @ replicate (blocked_count c) dt"] u i show ?thesis
      by simp
  qed
qed

lemma pair_days_pairs:
  "sum_list (map (interval_days now) (pair_by_position ds)) =
     pair_days (instant now) (map instant ds)"
  by (induction ds rule: pair_by_position.induct)
    (simp_all add: interval_days_def timedelta_days_def)

lemma blocked_days_instants:
  assumes "list_all (created_parses E) cl"
  shows "blocked_days_of E k cl =
           (pair_days (instant (clock E k)) (blocked_instants E cl),
            k + length (blocked_instants E cl) mod 2)"
proof -
  obtain dates k' where b: "blocked_changes E cl ([], k) = (dates, k')"
    by (cases "blocked_changes E cl ([], k)")
  with blocked_changes_parsed [OF assms, of "[]" k]
  have m: "map instant dates = blocked_instants E cl" and k: "k' = k"
    by simp_all
  from m have l: "length dates = length (blocked_instants E cl)"
    by (metis length_map)
  from b k show ?thesis
    by (simp add: blocked_days_of_def blocked_loop_pairs open_count_pairs pair_days_pairs m l)
qed

lemma set_blocked_instants: "set (blocked_instants E cl) \<subseteq> change_instant E ` set cl"
  by (auto simp: blocked_instants_def)

lemma sorted_blocked_instants:
  "sorted (map (change_instant E) cl) \<Longrightarrow> sorted (blocked_instants E cl)"
proof (induction cl)
  case Nil
  then show ?case by (simp add: blocked_instants_def)
next
  case (Cons c cl)
  have u: "blocked_instants E (c # cl) =
      replicate (blocked_count c) (change_instant E c) @ blocked_instants E cl"
    by (simp add: blocked_instants_def)
  from Cons.prems have s: "sorted (map (change_instant E) cl)"
    and l: "\<forall>x\<in>set cl. change_instant E c \<le> change_instant E x"
    by simp_all
  from l set_blocked_instants [of E cl]
  have "\<forall>y\<in>set (blocked_instants E cl). change_instant E c \<le> y"
    by auto
  with Cons.IH [OF s] show ?case
    unfolding u by (simp add: sorted_append)
qed

lemma mset_blocked_instants:
  "mset (blocked_instants E cl) =
     sum_mset (image_mset (\<lambda>c. replicate_mset (blocked_count c) (change_instant E c)) (mset cl))"
  by (induction cl) (simp_all add: blocked_instants_def)

lemma sorted_same_mset:
  assumes "sorted xs" "sorted ys" "mset xs = mset (ys :: int list)"
  shows "xs = ys"
proof -
  from assms(3) have "mset ys = mset xs" by simp
  then have "sort xs = ys" using assms(2) by (rule properties_for_sort)
  moreover have "sort xs = xs" using assms(1) by (rule sorted_sort_id)
  ultimately show ?thesis by simp
qed

lemma blocked_instants_resorted:
  assumes m: "mset shuffled = mset cl" and s: "sorted (map (change_instant E) cl)"
  shows "blocked_instants E (sort_key (change_instant E) shuffled) = blocked_instants E cl"
proof -
  have "sorted (map (change_instant E) (sort_key (change_instant E) shuffled))"
    by simp
  then have a: "sorted (blocked_instants E (sort_key (change_instant E) shuffled))"
    by (rule sorted_blocked_instants)
  have b: "sorted (blocked_instants E cl)"
    using s by (rule sorted_blocked_instants)
  have "mset (sort_key (change_instant E) shuffled) = mset cl"
    using m by simp
  then have "mset (blocked_instants E (sort_key (change_instant E) shuffled)) =
      mset (blocked_instants E cl)"
    by (simp only: mset_blocked_instants)
  with a b show ?thesis by (rule sorted_same_mset)
qed

lemma blocked_days_resorted:
  assumes m: "mset shuffled = mset cl" and s: "sorted (map (change_instant E) cl)"
    and p: "list_all (created_parses E) cl"
  shows "map instant (fst (blocked_changes E (sort_key (change_instant E) shuffled) ([], k))) =
           map instant (fst (blocked_changes E cl ([], k)))"
    and "blocked_days_of E k (sort_key (change_instant E) shuffled) = blocked_days_of E k cl"
proof -
  from m have "set (sort_key (change_instant E) shuffled) = set cl"
    by (metis mset_eq_setD set_sort)
  with p have q: "list_all (created_parses E) (sort_key (change_instant E) shuffled)"
    by (simp add: list_all_iff)
  note r = blocked_instants_resorted [OF m s]
  from blocked_changes_parsed [OF q, of "[]" k] blocked_changes_parsed [OF p, of "[]" k] r
  show "map instant (fst (blocked_changes E (sort_key (change_instant E) shuffled) ([], k))) =
           map instant (fst (blocked_changes E cl ([], k)))"
    by simp
  from blocked_days_instants [OF q, of k] blocked_days_instants [OF p, of k] r
  show "blocked_days_of E k (sort_key (change_instant E) shuffled) = blocked_days_of E k cl"
    by simp
qed

lemma blocked_two_orders:
  assumes "cr1 \<noteq> []" "cr2 \<noteq> []"
    and "try_formats E cr1 fmts = Some t1" "try_formats E cr2 fmts = Some t2"
  shows "fst (blocked_days_of E k
           [status_change cr1 a (Some ''Blocked''), status_change cr2 (Some ''Blocked'') b]) =
         (instant t2 - instant t1) div day_us"
    and "fst (blocked_days_of E k
           [status_change cr2 (Some ''Blocked'') b, status_change cr1 a (Some ''Blocked'')]) =
         (instant t1 - instant t2) div day_us"
proof -
  from assms have "blocked_changes E
      [status_change cr1 a (Some ''Blocked''), status_change cr2 (Some ''Blocked'') b] ([], k) =
      ([t1, t2], k)"
    by (simp add: status_change_def is_blocked_item_def parse_datetime_raw_def)
  then show "fst (blocked_days_of E k
           [status_change cr1 a (Some ''Blocked''), status_change cr2 (Some ''Blocked'') b]) =
         (instant t2 - instant t1) div day_us"
    by (simp add: blocked_days_of_def blocked_loop_pairs interval_days_def timedelta_days_def)
  from assms have "blocked_changes E
      [status_change cr2 (Some ''Blocked'') b, status_change cr1 a (Some ''Blocked'')] ([], k) =
      ([t2, t1], k)"
    by (simp add: status_change_def is_blocked_item_def parse_datetime_raw_def)
  then show "fst (blocked_days_of E k
           [status_change cr2 (Some ''Blocked'') b, status_change cr1 a (Some ''Blocked'')]) =
         (instant t1 - instant t2) div day_us"
    by (simp add: blocked_days_of_def blocked_loop_pairs interval_days_def timedelta_days_def)
qed

lemma review_two_orders:
  assumes "cr1 \<noteq> []" "cr2 \<noteq> []"
    and "try_formats E cr1 fmts = Some t1" "try_formats E cr2 fmts = Some t2"
    and "b \<noteq> Some ''Peer Review''"
  shows "fst (fst (review_changes E
           [status_change cr1 a (Some ''Peer Review''),
            status_change cr2 (Some ''Peer Review'') b] (([], []), k))) =
         [\<lparr>period_start = t1, period_end = Some t2\<rparr>]"
    and "fst (fst (review_changes E
           [status_change cr2 (Some ''Peer Review'') b,
            status_change cr1 a (Some ''Peer Review'')] (([], []), k))) =
         [\<lparr>period_start = t1, period_end = None\<rparr>]"
  using assms
  by (simp_all add: status_change_def parse_datetime_raw_def close_latest_open_def)

text \<open>
  Claim C5, as amended. The program pairs the events in the order of the changelog and
  does not sort them: two blocked events with different timestamps give different
  blocked days in their two orders, and an entry into Peer Review and an exit from it
  give a closed period in one order and an open one in the other. For a changelog that
  is supplied in the order of its timestamps, all of which parse, shuffling the events
  and sorting them by timestamp gives the same blocked timestamps, hence the same
  intervals and the same blocked days, as the supplied order; when the timestamps are
  strictly increasing it gives the supplied changelog back, hence also the same review
  periods.
\<close>

theorem resorting_chronological_log:
  "(cr1 \<noteq> [] \<and> cr2 \<noteq> [] \<and> try_formats E cr1 fmts = Some t1 \<and>
    try_formats E cr2 fmts = Some t2 \<and> instant t1 \<noteq> instant t2 \<longrightarrow>
      fst (blocked_days_of E k
             [status_change cr2 (Some ''Blocked'') b, status_change cr1 a (Some ''Blocked'')]) \<noteq>
      fst (blocked_days_of E k
             [status_change cr1 a (Some ''Blocked''), status_change cr2 (Some ''Blocked'') b]))
   \<and> (cr1 \<noteq> [] \<and> cr2 \<noteq> [] \<and> try_formats E cr1 fmts = Some t1 \<and>
       try_formats E cr2 fmts = Some t2 \<and> b \<noteq> Some ''Peer Review'' \<longrightarrow>
        fst (fst (review_changes E
               [status_change cr1 a (Some ''Peer Review''),
                status_change cr2 (Some ''Peer Review'') b] (([], []), k))) =
          [\<lparr>period_start = t1, period_end = Some t2\<rparr>] \<and>
        fst (fst (review_changes E
               [status_change cr2 (Some ''Peer Review'') b,
                status_change cr1 a (Some ''Peer Review'')] (([], []), k))) =
          [\<lparr>period_start = t1, period_end = None\<rparr>])
   \<and> (mset shuffled = mset changelog \<and> sorted (map (change_instant E) changelog) \<and>
       list_all (created_parses E) changelog \<longrightarrow>
        map instant (fst (blocked_changes E (sort_key (change_instant E) shuffled) ([], k))) =
          map instant (fst (blocked_changes E changelog ([], k))) \<and>
        blocked_days_of E k (sort_key (change_instant E) shuffled) =
          blocked_days_of E k changelog)
   \<and> (mset shuffled = mset changelog \<and> sorted (map ts changelog) \<and>
       distinct (map ts changelog) \<longrightarrow>
        sort_key ts shuffled = changelog \<and>
        blocked_days_of E k (sort_key ts shuffled) = blocked_days_of E k changelog \<and>
        review_changes E (sort_key ts shuffled) (([], []), k) =
          review_changes E changelog (([], []), k))"
proof -
  have c1: "cr1 \<noteq> [] \<and> cr2 \<noteq> [] \<and> try_formats E cr1 fmts = Some t1 \<and>
    try_formats E cr2 fmts = Some t2 \<and> instant t1 \<noteq> instant t2 \<longrightarrow>
      fst (blocked_days_of E k
             [status_change cr2 (Some ''Blocked'') b, status_change cr1 a (Some ''Blocked'')]) \<noteq>
      fst (blocked_days_of E k
             [status_change cr1 a (Some ''Blocked''), status_change cr2 (Some ''Blocked'') b])"
  proof
    assume h: "cr1 \<noteq> [] \<and> cr2 \<noteq> [] \<and> try_formats E cr1 fmts = Some t1 \<and>
      try_formats E cr2 fmts = Some t2 \<and> instant t1 \<noteq> instant t2"
    then have c: "cr1 \<noteq> []" "cr2 \<noteq> []" "try_formats E cr1 fmts = Some t1"
      "try_formats E cr2 fmts = Some t2"
      by simp_all
    from h have "instant t1 - instant t2 \<noteq> 0" by simp
    then have "(instant t1 - instant t2) div day_us \<noteq> (- (instant t1 - instant t2)) div day_us"
      by (rule floor_days_neg)
    then have "(instant t1 - instant t2) div day_us \<noteq> (instant t2 - instant t1) div day_us"
      by simp
    then show "fst (blocked_days_of E k
             [status_change cr2 (Some ''Blocked'') b, status_change cr1 a (Some ''Blocked'')]) \<noteq>
      fst (blocked_days_of E k
             [status_change cr1 a (Some ''Blocked''), status_change cr2 (Some ''Blocked'') b])"
      by (simp add: blocked_two_orders [OF c])
  qed
  have c2: "cr1 \<noteq> [] \<and> cr2 \<noteq> [] \<and> try_formats E cr1 fmts = Some t1 \<and>
       try_formats E cr2 fmts = Some t2 \<and> b \<noteq> Some ''Peer Review'' \<longrightarrow>
        fst (fst (review_changes E
               [status_change cr1 a (Some ''Peer Review''),
                status_change cr2 (Some ''Peer Review'') b] (([], []), k))) =
          [\<lparr>period_start = t1, period_end = Some t2\<rparr>] \<and>
        fst (fst (review_changes E
               [status_change cr2 (Some ''Peer Review'') b,
                status_change cr1 a (Some ''Peer Review'')] (([], []), k))) =
          [\<lparr>period_start = t1, period_end = None\<rparr>]"
  proof
    assume h: "cr1 \<noteq> [] \<and> cr2 \<noteq> [] \<and> try_formats E cr1 fmts = Some t1 \<and>
       try_formats E cr2 fmts = Some t2 \<and> b \<noteq> Some ''Peer Review''"
    then have c: "cr1 \<noteq> []" "cr2 \<noteq> []" "try_formats E cr1 fmts = Some t1"
      "try_formats E cr2 fmts = Some t2" "b \<noteq> Some ''Peer Review''"
      by simp_all
    show "fst (fst (review_changes E
               [status_change cr1 a (Some ''Peer Review''),
                status_change cr2 (Some ''Peer Review'') b] (([], []), k))) =
          [\<lparr>period_start = t1, period_end = Some t2\<rparr>] \<and>
        fst (fst (review_changes E
               [status_change cr2 (Some ''Peer Review'') b,
                status_change cr1 a (Some ''Peer Review'')] (([], []), k))) =
          [\<lparr>period_start = t1, period_end = None\<rparr>]"
      by (rule conjI [OF review_two_orders(1) [OF c] review_two_orders(2) [OF c]])
  qed
  have c3: "mset shuffled = mset changelog \<and> sorted (map (change_instant E) changelog) \<and>
       list_all (created_parses E) changelog \<longrightarrow>
        map instant (fst (blocked_changes E (sort_key (change_instant E) shuffled) ([], k))) =
          map instant (fst (blocked_changes E changelog ([], k))) \<and>
        blocked_days_of E k (sort_key (change_instant E) shuffled) =
          blocked_days_of E k changelog"
  proof
    assume h: "mset shuffled = mset changelog \<and> sorted (map (change_instant E) changelog) \<and>
       list_all (created_parses E) changelog"
    then have c: "mset shuffled = mset changelog" "sorted (map (change_instant E) changelog)"
      "list_all (created_parses E) changelog"
      by simp_all
    show "map instant (fst (blocked_changes E (sort_key (change_instant E) shuffled) ([], k))) =
          map instant (fst (blocked_changes E changelog ([], k))) \<and>
        blocked_days_of E k (sort_key (change_instant E) shuffled) =
          blocked_days_of E k changelog"
      using blocked_days_resorted [OF c, of k] by simp
  qed
  have c4: "mset shuffled = mset changelog \<and> sorted (map ts changelog) \<and>
       distinct (map ts changelog) \<longrightarrow>
        sort_key ts shuffled = changelog \<and>
        blocked_days_of E k (sort_key ts shuffled) = blocked_days_of E k changelog \<and>
        review_changes E (sort_key ts shuffled) (([], []), k) =
          review_changes E changelog (([], []), k)"
  proof
    assume h: "mset shuffled = mset changelog \<and> sorted (map ts changelog) \<and>
       distinct (map ts changelog)"
    then have "mset (sort_key ts shuffled) = mset changelog"
      by simp
    moreover have "sorted (map ts (sort_key ts shuffled))"
      by simp
    moreover from h have "sorted (map ts changelog)" "distinct (map ts changelog)"
      by simp_all
    ultimately have "sort_key ts shuffled = changelog"
      by (rule sorted_distinct_keys_unique)
    then show "sort_key ts shuffled = changelog \<and>
        blocked_days_of E k (sort_key ts shuffled) = blocked_days_of E k changelog \<and>
        review_changes E (sort_key ts shuffled) (([], []), k) =
          review_changes E changelog (([], []), k)"
      by simp
  qed
  from c1 c2 c3 c4 show ?thesis by (intro conjI)
qed

theorem resorting_chronological_log_witness:
  "try_formats ex_env ''2024-01-01T00:00:00.000+0000'' fmts = Some jan01 \<and>
   try_formats ex_env ''2024-01-03T12:00:00.000+0000'' fmts = Some jan03_noon \<and>
   instant jan01 \<noteq> instant jan03_noon \<and>
   fst (blocked_days_of ex_env 0 cl_blocked_unsorted) \<noteq>
     fst (blocked_days_of ex_env 0 cl_blocked_sorted) \<and>
   mset cl_blocked_unsorted = mset cl_blocked_sorted \<and>
   map (change_instant ex_env) cl_blocked_sorted = [instant jan01, instant jan03_noon] \<and>
   list_all (created_parses ex_env) cl_blocked_sorted \<and>
   sort_key (change_instant ex_env) cl_blocked_unsorted = cl_blocked_sorted \<and>
   blocked_days_of ex_env 0 (sort_key (change_instant ex_env) cl_blocked_unsorted) =
     blocked_days_of ex_env 0 cl_blocked_sorted"
proof -
  note th = resorting_chronological_log
    [where E = ex_env and k = 0 and ?cr1.0 = "''2024-01-01T00:00:00.000+0000''"
       and ?cr2.0 = "''2024-01-03T12:00:00.000+0000''" and ?t1.0 = jan01 and ?t2.0 = jan03_noon
       and a = "Some ''In Progress''" and b = "Some ''In Progress''"
       and shuffled = cl_blocked_unsorted and changelog = cl_blocked_sorted
       and ts = "change_instant ex_env"]
  have n: "''2024-01-01T00:00:00.000+0000'' \<noteq> []" "''2024-01-03T12:00:00.000+0000'' \<noteq> []"
    by simp_all
  have t: "try_formats ex_env ''2024-01-01T00:00:00.000+0000'' fmts = Some jan01"
    "try_formats ex_env ''2024-01-03T12:00:00.000+0000'' fmts = Some jan03_noon"
    by (simp_all add: ex_defs)
  have l: "instant jan01 < instant jan03_noon"
    by (simp add: jan01_def jan03_noon_def)
  then have d: "instant jan01 \<noteq> instant jan03_noon" by simp
  have m: "mset cl_blocked_unsorted = mset cl_blocked_sorted"
    by (simp add: cl_blocked_unsorted_def cl_blocked_sorted_def)
  have i: "map (change_instant ex_env) cl_blocked_sorted = [instant jan01, instant jan03_noon]"
    by (simp add: cl_blocked_sorted_def change_instant_def ex_defs)
  from i l have s: "sorted (map (change_instant ex_env) cl_blocked_sorted)" by simp
  from i l have u: "distinct (map (change_instant ex_env) cl_blocked_sorted)" by simp
  have p: "list_all (created_parses ex_env) cl_blocked_sorted"
    by (simp add: cl_blocked_sorted_def created_parses_def ex_defs)
  from th [THEN conjunct1] n t d
  have o: "fst (blocked_days_of ex_env 0 cl_blocked_unsorted) \<noteq>
     fst (blocked_days_of ex_env 0 cl_blocked_sorted)"
    by (simp add: cl_blocked_unsorted_def cl_blocked_sorted_def)
  from th [THEN conjunct2, THEN conjunct2, THEN conjunct1] m s p
  have r: "blocked_days_of ex_env 0 (sort_key (change_instant ex_env) cl_blocked_unsorted) =
     blocked_days_of ex_env 0 cl_blocked_sorted"
    by blast
  from th [THEN conjunct2, THEN conjunct2, THEN conjunct2] m s u
  have k: "sort_key (change_instant ex_env) cl_blocked_unsorted = cl_blocked_sorted"
    by blast
  from t d o m i p k r show ?thesis by simp
qed

text \<open>
  The claim as stated fails for a changelog that is not in chronological order: the
  changelog that lists the exit of January 3rd before the entry of January 1st gives the
  interval from January 3rd to January 1st and \<open>-3\<close> blocked days, and the same events
  sorted by timestamp give the interval from January 1st to January 3rd and \<open>2\<close> days.
\<close>

theorem resorting_changes_intervals:
  "mset cl_blocked_sorted = mset cl_blocked_unsorted \<and>
   sort_key (change_instant ex_env) cl_blocked_unsorted = cl_blocked_sorted \<and>
   pair_by_position (fst (blocked_changes ex_env cl_blocked_sorted ([], 0))) =
     [(jan01, Some jan03_noon)] \<and>
   pair_by_position (fst (blocked_changes ex_env cl_blocked_unsorted ([], 0))) =
     [(jan03_noon, Some jan01)] \<and>
   jan01 \<noteq> jan03_noon \<and>
   blocked_days_of ex_env 0 cl_blocked_sorted = (2, 0) \<and>
   blocked_days_of ex_env 0 cl_blocked_unsorted = (- 3, 0)"
proof -
  have a: "blocked_changes ex_env cl_blocked_sorted ([], 0) = ([jan01, jan03_noon], 0)"
    by (simp add: cl_blocked_sorted_def is_blocked_item_def parse_datetime_raw_def ex_defs)
  have b: "blocked_changes ex_env cl_blocked_unsorted ([], 0) = ([jan03_noon, jan01], 0)"
    by (simp add: cl_blocked_unsorted_def is_blocked_item_def parse_datetime_raw_def ex_defs)
  have c: "sort_key (change_instant ex_env) cl_blocked_unsorted = cl_blocked_sorted"
    by (simp add: cl_blocked_sorted_def cl_blocked_unsorted_def change_instant_def ex_defs)
  have m: "mset cl_blocked_sorted = mset cl_blocked_unsorted"
    by (simp add: cl_blocked_unsorted_def cl_blocked_sorted_def)
  have n: "jan01 \<noteq> jan03_noon"
    by (simp add: jan01_def jan03_noon_def)
  show ?thesis
    using a b c m n
    by (simp add: blocked_days_of_def blocked_loop_pairs open_count_pairs interval_days_def
        timedelta_days_def day_us_def jan01_def jan03_noon_def)
qed

section \<open>Which event opens an interval\<close>

lemma alternate_scan_pairs: "alternate_scan None ds = pair_by_position ds"
  by (induction ds rule: pair_by_position.induct) simp_all

lemma close_first_open_skip:
  "\<forall>q\<in>set qs. period_end q \<noteq> None \<Longrightarrow> period_end p = None \<Longrightarrow>
   close_first_open t (qs @ p # ps) = qs @ p\<lparr>period_end := Some t\<rparr> # ps"
  by (induction qs) auto

lemma close_latest_open_last:
  assumes "period_end p = None" and "\<forall>q\<in>set qs. period_end q \<noteq> None"
  shows "close_latest_open t (ps @ p # qs) = ps @ p\<lparr>period_end := Some t\<rparr> # qs"
proof -
  from assms(2) have a: "\<forall>q\<in>set (rev qs). period_end q \<noteq> None" by simp
  have "close_first_open t (rev qs @ p # rev ps) = rev qs @ p\<lparr>period_end := Some t\<rparr> # rev ps"
    using a assms(1) by (rule close_first_open_skip)
  then show ?thesis by (simp add: close_latest_open_def)
qed

text \<open>
  Claim C6, as amended. In the pairing of the blocked events, an event is collected
  whichever of the two tests it matches (a status changing to Blocked, or from Blocked),
  the first event opens an interval, and every later event closes the interval that is
  open or opens a new one. The review periods are paired by label instead: an event
  that enters Peer Review always opens a new period; an event that leaves Peer Review is
  ignored when no period has been recorded, and otherwise closes the period opened last
  among those still open.
\<close>

theorem blocked_pairing_alternates:
  "(is_blocked_item it \<longrightarrow>
      blocked_items E cr [it] (dates, k) =
        (dates @ [fst (parse_datetime_raw E k cr)], snd (parse_datetime_raw E k cr)))
   \<and> fst (blocked_loop E dates 0 (0, k)) =
       sum_list (map (interval_days (clock E k)) (alternate_scan None dates))
   \<and> (field it = Some ''status'' \<and> toString it = Some ''Peer Review'' \<longrightarrow>
        review_items t [it] (ps, acs) = (ps @ [\<lparr>period_start = t, period_end = None\<rparr>], acs))
   \<and> (field it = Some ''status'' \<and> toString it \<noteq> Some ''Peer Review'' \<and>
       fromString it = Some ''Peer Review'' \<longrightarrow>
        review_items t [it] ([], acs) = ([], acs))
   \<and> (field it = Some ''status'' \<and> toString it \<noteq> Some ''Peer Review'' \<and>
       fromString it = Some ''Peer Review'' \<and> period_end p = None \<and>
       (\<forall>q\<in>set qs. period_end q \<noteq> None) \<longrightarrow>
        review_items t [it] (ps @ p # qs, acs) = (ps @ p\<lparr>period_end := Some t\<rparr> # qs, acs))"
proof (intro conjI impI)
  assume "is_blocked_item it"
  then show "blocked_items E cr [it] (dates, k) =
        (dates @ [fst (parse_datetime_raw E k cr)], snd (parse_datetime_raw E k cr))"
    by (simp split: prod.splits)
next
  show "fst (blocked_loop E dates 0 (0, k)) =
       sum_list (map (interval_days (clock E k)) (alternate_scan None dates))"
    by (simp add: blocked_loop_pairs alternate_scan_pairs)
next
  assume "field it = Some ''status'' \<and> toString it = Some ''Peer Review''"
  then show "review_items t [it] (ps, acs) =
       (ps @ [\<lparr>period_start = t, period_end = None\<rparr>], acs)"
    by simp
next
  assume "field it = Some ''status'' \<and> toString it \<noteq> Some ''Peer Review'' \<and>
       fromString it = Some ''Peer Review''"
  then show "review_items t [it] ([], acs) = ([], acs)"
    by simp
next
  assume h: "field it = Some ''status'' \<and> toString it \<noteq> Some ''Peer Review'' \<and>
       fromString it = Some ''Peer Review'' \<and> period_end p = None \<and>
       (\<forall>q\<in>set qs. period_end q \<noteq> None)"
  then have "close_latest_open t (ps @ p # qs) = ps @ p\<lparr>period_end := Some t\<rparr> # qs"
    by (simp add: close_latest_open_last)
  with h show "review_items t [it] (ps @ p # qs, acs) =
       (ps @ p\<lparr>period_end := Some t\<rparr> # qs, acs)"
    by simp
qed

theorem blocked_pairing_alternates_witness:
  "is_blocked_item exit_blocked_item \<and>
   blocked_items ex_env ''2024-01-03T12:00:00.000+0000'' [exit_blocked_item] ([], 0) =
     ([jan03_noon], 0) \<and>
   alternate_scan None [jan03_noon] = [(jan03_noon, None)] \<and>
   fst (blocked_loop ex_env [jan03_noon] 0 (0, 0)) = 28 \<and>
   review_items jan01 [enter_review_item] ([], []) =
     ([\<lparr>period_start = jan01, period_end = None\<rparr>], []) \<and>
   review_items jan03_noon [exit_review_item] ([], []) = ([], []) \<and>
   review_items jan03_noon [exit_review_item]
     ([\<lparr>period_start = jan01, period_end = None\<rparr>], []) =
     ([\<lparr>period_start = jan01, period_end = Some jan03_noon\<rparr>], [])"
proof -
  have b: "is_blocked_item exit_blocked_item"
    by (simp add: is_blocked_item_def exit_blocked_item_def)
  have p: "parse_datetime_raw ex_env 0 ''2024-01-03T12:00:00.000+0000'' = (jan03_noon, 0)"
    by (simp add: parse_datetime_raw_def ex_defs)
  have d: "interval_days (clock ex_env 0) (jan03_noon, None) = 28"
    by (simp add: interval_days_def timedelta_days_def day_us_def ex_defs)
  have r: "field exit_review_item = Some ''status'' \<and>
       toString exit_review_item \<noteq> Some ''Peer Review'' \<and>
       fromString exit_review_item = Some ''Peer Review''"
    by (simp add: exit_review_item_def)
  have n: "field enter_review_item = Some ''status'' \<and>
       toString enter_review_item = Some ''Peer Review''"
    by (simp add: enter_review_item_def)
  from blocked_pairing_alternates
         [of exit_blocked_item ex_env "''2024-01-03T12:00:00.000+0000''" "[]" 0]
       blocked_pairing_alternates
         [of enter_review_item ex_env "[]" "[]" 0 jan01 "[]" "[]"]
       n
       blocked_pairing_alternates
         [of exit_review_item ex_env "[]" "[jan03_noon]" 0 jan03_noon "[]" "[]"
             "\<lparr>period_start = jan01, period_end = None\<rparr>" "[]"]
       b p d r
  show ?thesis by simp
qed

text \<open>
  The claim as stated fails for the review periods: in a log whose first event leaves
  Peer Review, on January 1st, the scan of the specification opens an interval at that
  event; the program records no period, and the unassigned time is zero.
\<close>

theorem review_exit_first_opens_nothing:
  "try_formats ex_env ''2024-01-01T00:00:00.000+0000'' fmts = Some jan01 \<and>
   alternate_scan None [jan01] = [(jan01, None)] \<and>
   review_changes ex_env cl_review_exit_first (([], []), 0) = (([], []), 0) \<and>
   unassigned_days_of ex_env 0 cl_review_exit_first = Inr (0, 1)"
proof -
  have r: "review_changes ex_env cl_review_exit_first (([], []), 0) = (([], []), 0)"
    by (simp add: cl_review_exit_first_def parse_datetime_raw_def ex_defs)
  have t: "try_formats ex_env ''2024-01-01T00:00:00.000+0000'' fmts = Some jan01"
    by (simp add: ex_defs)
  from r t show ?thesis
    by (simp add: unassigned_days_of_def ex_days_rounded_zero)
qed

section \<open>Timestamps that do not parse\<close>

text \<open>
  Claim C7 says that a change whose timestamp cannot be parsed is dropped, and that no
  substituted time reaches an output. The program skips a change only when its
  timestamp is missing or empty. Here Blocked is entered at the timestamp
  \<^verbatim>\<open>not-a-Time\<close>, which no format parses, and left on January 5th: \<open>parse_datetime_raw\<close>
  returns the clock's reading of February 1st, the event is kept with that reading as
  its time, and the blocked days are \<open>-27\<close>; the changelog without the event has \<open>27\<close>
  blocked days. For the status dates \<open>parse_datetime\<close> returns the text \<^verbatim>\<open>not-a-\<close>.
\<close>

theorem malformed_timestamp_contributes:
  "strptime ex_env ''not-a-Time'' ''%Y-%m-%dT%H:%M:%S.%f%z'' = None \<and>
   strptime ex_env ''not-a-Time'' ''%Y-%m-%dT%H:%M:%S%z'' = None \<and>
   parse_datetime_raw ex_env 0 ''not-a-Time'' = (ex_clock 0, 1) \<and>
   blocked_changes ex_env cl_blocked_malformed ([], 0) = ([ex_clock 0, jan05], 1) \<and>
   blocked_days_of ex_env 0 cl_blocked_malformed = (- 27, 1) \<and>
   blocked_days_of ex_env 0 (tl cl_blocked_malformed) = (27, 1) \<and>
   parse_datetime ex_env ''not-a-Time'' = ''not-a-''"
proof -
  have a: "blocked_changes ex_env cl_blocked_malformed ([], 0) = ([ex_clock 0, jan05], 1)"
    by (simp add: cl_blocked_malformed_def is_blocked_item_def parse_datetime_raw_def ex_defs)
  have b: "blocked_changes ex_env (tl cl_blocked_malformed) ([], 0) = ([jan05], 0)"
    by (simp add: cl_blocked_malformed_def is_blocked_item_def parse_datetime_raw_def ex_defs)
  have c: "parse_datetime ex_env ''not-a-Time'' = ''not-a-''"
    by (simp add: parse_datetime_def split_T_first_def ex_defs)
  have d: "parse_datetime_raw ex_env 0 ''not-a-Time'' = (ex_clock 0, 1)"
    by (simp add: parse_datetime_raw_def ex_defs)
  have e: "strptime ex_env ''not-a-Time'' ''%Y-%m-%dT%H:%M:%S.%f%z'' = None \<and>
   strptime ex_env ''not-a-Time'' ''%Y-%m-%dT%H:%M:%S%z'' = None"
    by (simp add: ex_defs)
  have f: "blocked_days_of ex_env 0 cl_blocked_malformed = (- 27, 1)"
    using a
    by (simp add: blocked_days_of_def blocked_loop_pairs open_count_pairs interval_days_def
        timedelta_days_def day_us_def ex_clock_def jan05_def)
  have g: "blocked_days_of ex_env 0 (tl cl_blocked_malformed) = (27, 1)"
    using b
    by (simp add: blocked_days_of_def blocked_loop_pairs open_count_pairs interval_days_def
        timedelta_days_def day_us_def ex_env_def ex_clock_def jan05_def)
  from a c d e f g show ?thesis by simp
qed

section \<open>Flow efficiency\<close>

text \<open>
  Claim C8, as amended. The flow efficiency of a row is its cycle time divided by its
  lead time when both are defined and the lead time is not zero, and exactly 0
  otherwise. It is not negative when the two times do not have opposite signs, and it is
  negative when they do.
\<close>

theorem flow_efficiency_cases:
  "(cycle_time E r = Some c \<and> lead_time E r = Some l \<and> l \<noteq> 0 \<longrightarrow>
      flow_efficiency E r = of_int c / of_int l)
   \<and> (cycle_time E r = None \<or> lead_time E r = None \<or> lead_time E r = Some 0 \<longrightarrow>
        flow_efficiency E r = 0)
   \<and> (cycle_time E r = Some c \<and> lead_time E r = Some l \<and> 0 \<le> c * l \<longrightarrow>
        0 \<le> flow_efficiency E r)
   \<and> (cycle_time E r = Some c \<and> lead_time E r = Some l \<and> c * l < 0 \<longrightarrow>
        flow_efficiency E r < 0)"
proof (intro conjI impI)
  assume "cycle_time E r = Some c \<and> lead_time E r = Some l \<and> l \<noteq> 0"
  then show "flow_efficiency E r = of_int c / of_int l"
    by (simp add: flow_efficiency_def)
next
  assume "cycle_time E r = None \<or> lead_time E r = None \<or> lead_time E r = Some 0"
  then show "flow_efficiency E r = 0"
    by (auto simp: flow_efficiency_def split: option.splits)
next
  assume h: "cycle_time E r = Some c \<and> lead_time E r = Some l \<and> 0 \<le> c * l"
  then have "0 \<le> (of_int c :: rat) * of_int l"
    by (metis of_int_0_le_iff of_int_mult)
  then have "0 \<le> (of_int c :: rat) / of_int l"
    by (simp add: zero_le_divide_iff zero_le_mult_iff)
  with h show "0 \<le> flow_efficiency E r"
    by (simp add: flow_efficiency_def)
next
  assume h: "cycle_time E r = Some c \<and> lead_time E r = Some l \<and> c * l < 0"
  then have "(of_int c :: rat) * of_int l < 0"
    by (metis of_int_less_0_iff of_int_mult)
  then have "(of_int c :: rat) / of_int l < 0"
    by (simp add: divide_less_0_iff mult_less_0_iff)
  moreover from h have "l \<noteq> 0" by auto
  ultimately show "flow_efficiency E r < 0"
    using h by (simp add: flow_efficiency_def)
qed

lemma demo_dates:
  "to_datetime ex_env ''2024-01-01'' = Some jan01"
  "to_datetime ex_env ''2024-01-05'' = Some jan05"
  "to_datetime ex_env ''2024-01-10'' = Some jan10"
  by (simp_all add: ex_env_def ex_to_datetime_def)

lemma demo_days:
  "timedelta_days jan05 jan10 = - 5"
  "timedelta_days jan05 jan01 = 4"
  "timedelta_days jan10 jan05 = 5"
  "timedelta_days jan10 jan01 = 9"
  by (simp_all add: timedelta_days_def day_us_def jan01_def jan05_def jan10_def)

lemma demo_blank: "to_datetime ex_env [] = None"
  by (simp add: ex_env_def ex_to_datetime_def)

theorem flow_efficiency_cases_witness:
  "cycle_time ex_env row_demo2 = Some 6 \<and> lead_time ex_env row_demo2 = Some 10 \<and>
   flow_efficiency ex_env row_demo2 = 3 / 5 \<and> 0 \<le> flow_efficiency ex_env row_demo2 \<and>
   lead_time ex_env row_demo3 = None \<and> flow_efficiency ex_env row_demo3 = 0 \<and>
   cycle_time ex_env row_demo1 = Some (- 4) \<and> lead_time ex_env row_demo1 = Some 5 \<and>
   flow_efficiency ex_env row_demo1 < 0"
proof -
  have c: "cycle_time ex_env row_demo2 = Some 6"
    by (simp add: cycle_time_def dt_days_def row_demo2_def demo_dates demo_days)
  have l: "lead_time ex_env row_demo2 = Some 10"
    by (simp add: lead_time_def dt_days_def row_demo2_def demo_dates demo_days)
  have u: "lead_time ex_env row_demo3 = None"
    by (simp add: lead_time_def dt_days_def row_demo3_def row_demo2_def demo_dates demo_blank)
  have c1: "cycle_time ex_env row_demo1 = Some (- 4)"
    by (simp add: cycle_time_def dt_days_def row_demo1_def demo_dates demo_days)
  have l1: "lead_time ex_env row_demo1 = Some 5"
    by (simp add: lead_time_def dt_days_def row_demo1_def demo_dates demo_days)
  from flow_efficiency_cases [of ex_env row_demo2 6 10]
    flow_efficiency_cases [of ex_env row_demo3 0 0]
    flow_efficiency_cases [of ex_env row_demo1 "- 4" 5] c l u c1 l1
  show ?thesis by simp
qed

text \<open>The rows the program assembles for the two example issues.\<close>

lemma demo1_status:
  "status_dates_of ex_env cl_testing_first ''Backlog'' = Some ''2024-01-01''"
  "status_dates_of ex_env cl_testing_first ''In Progress'' = Some ''2024-01-10''"
  "status_dates_of ex_env cl_testing_first ''InProgress'' = None"
  "status_dates_of ex_env cl_testing_first ''Peer Review'' = None"
  "status_dates_of ex_env cl_testing_first ''Pending Deployment'' = None"
  "status_dates_of ex_env cl_testing_first ''Testing'' = Some ''2024-01-05''"
  "status_dates_of ex_env cl_testing_first ''Approved for Release'' = None"
  "status_dates_of ex_env cl_testing_first ''Closed'' = None"
  by (simp_all add: status_dates_of_def cl_testing_first_def parse_datetime_def ex_defs)


lemma demo_fetch:
  "fetch_issue_changelog ex_env ''DEMO-1'' = Inr cl_testing_first"
  "fetch_issue_changelog ex_env ''DEMO-2'' = Inr cl_no_backlog"
  by (simp_all add: ex_env_def ex_fetch_def)

lemma demo1_blocked: "blocked_days_of ex_env 0 cl_testing_first = (0, 0)"
proof -
  have "blocked_changes ex_env cl_testing_first ([], 0) = ([], 0)"
    by (simp add: cl_testing_first_def is_blocked_item_def status_change_def)
  then show ?thesis by (simp add: blocked_days_of_def blocked_loop_exit)
qed


lemma demo1_unassigned: "unassigned_days_of ex_env 0 cl_testing_first = Inr (0, 1)"
proof -
  have "review_changes ex_env cl_testing_first (([], []), 0) = (([], []), 0)"
    by (simp add: cl_testing_first_def parse_datetime_raw_def ex_defs)
  then show ?thesis by (simp add: unassigned_days_of_def ex_days_rounded_zero)
qed


lemma demo_min_date:
  "min_date ex_env [''2024-01-05'', [], []] = ''2024-01-05''"
  "min_date ex_env [''2024-01-10'', [], []] = ''2024-01-10''"
  by (simp_all add: min_date_def ex_defs)

lemma demo_strip: "strip ''DEMO-1'' \<noteq> []" "strip ''DEMO-2'' \<noteq> []"
  by (simp_all add: strip_def py_isspace_def)


lemma demo1_row: "build_row ex_env 0 issue_demo1 = Inr (row_demo1, 1)"
  by (simp add: build_row_def issue_demo1_def get_status_transition_dates_def
      get_blocked_days_def get_peer_review_unassigned_time_def demo_fetch demo1_status
      demo1_blocked demo1_unassigned demo_min_date demo_strip get_or_empty_def or_else_def
      row_demo1_def Let_def)


text \<open>
  The claim as stated bounds the flow efficiency below by zero. The item of
  \<open>issue_demo1\<close> enters Testing on January 5th and In Progress, for the first time, on
  January 10th: its end date precedes its In Progress date, its cycle time is \<open>-4\<close>, its
  lead time \<open>5\<close>, and its flow efficiency \<open>-4/5\<close>.
\<close>

theorem flow_efficiency_negative:
  "build_row ex_env 0 issue_demo1 = Inr (row_demo1, 1) \<and>
   cycle_time ex_env row_demo1 = Some (- 4) \<and>
   lead_time ex_env row_demo1 = Some 5 \<and>
   flow_efficiency ex_env row_demo1 = - (4 / 5) \<and>
   flow_efficiency ex_env row_demo1 < 0"
proof -
  have c: "cycle_time ex_env row_demo1 = Some (- 4)"
    by (simp add: cycle_time_def dt_days_def row_demo1_def demo_dates demo_days)
  have l: "lead_time ex_env row_demo1 = Some 5"
    by (simp add: lead_time_def dt_days_def row_demo1_def demo_dates demo_days)
  from c l demo1_row show ?thesis
    by (simp add: flow_efficiency_def)
qed

section \<open>An item with no transition into Backlog\<close>








end
